theory Spec2Isabelle
  imports Main "HOL-Library.Sublist" "HOL-Library.AList"
begin

section \<open>Values of the program\<close>

text \<open>
  The client (\<^verbatim>\<open>bexio_client.py\<close>) handles decoded JSON: \<^verbatim>\<open>None\<close>, booleans,
  integers, floats, strings, lists and string-keyed dicts. A dict is an association
  list in insertion order (Python dicts keep it, and \<^verbatim>\<open>str\<close> of a dict shows it).
  A character stands for one code point below 256. Of a float the program only ever
  takes \<^verbatim>\<open>str\<close> and the truth value, so a float is carried by the text Python
  prints for it.
\<close>

datatype pyval =
    PNone
  | PBool bool
  | PInt int
  | PFloat string
  | PStr string
  | PList "pyval list"
  | PDict "(string \<times> pyval) list"

text \<open>
  The exceptions the modelled code can raise, each with its message.
  \<^verbatim>\<open>AttributeError t a\<close> is "'t' object has no attribute 'a'",
  \<^verbatim>\<open>TypeError t\<close> is "'t' object is not iterable".
\<close>

datatype py_error =
    ValueError string
  | AttributeError string string
  | TypeError string

fun is_ValueError :: "py_error \<Rightarrow> bool" where
  "is_ValueError (ValueError m) = True"
| "is_ValueError e = False"

fun type_name :: "pyval \<Rightarrow> string" where
  "type_name PNone = ''NoneType''"
| "type_name (PBool b) = ''bool''"
| "type_name (PInt i) = ''int''"
| "type_name (PFloat r) = ''float''"
| "type_name (PStr s) = ''str''"
| "type_name (PList xs) = ''list''"
| "type_name (PDict d) = ''dict''"

text \<open>Python truth value: \<^verbatim>\<open>bool(v)\<close>.\<close>

fun truthy :: "pyval \<Rightarrow> bool" where
  "truthy PNone = False"
| "truthy (PBool b) = b"
| "truthy (PInt i) = (i \<noteq> 0)"
| "truthy (PFloat r) = (r \<noteq> ''0.0'' \<and> r \<noteq> ''-0.0'')"
| "truthy (PStr s) = (s \<noteq> [])"
| "truthy (PList xs) = (xs \<noteq> [])"
| "truthy (PDict d) = (d \<noteq> [])"

text \<open>\<^verbatim>\<open>a or b\<close>: the first operand when it is truthy, else the second.\<close>

definition py_or :: "pyval \<Rightarrow> pyval \<Rightarrow> pyval" where
  "py_or a b = (if truthy a then a else b)"

text \<open>\<^verbatim>\<open>d.get(k)\<close>: the value, or \<^verbatim>\<open>None\<close> for a missing key.\<close>

definition dict_get :: "(string \<times> pyval) list \<Rightarrow> string \<Rightarrow> pyval" where
  "dict_get d k = (case map_of d k of None \<Rightarrow> PNone | Some v \<Rightarrow> v)"

text \<open>\<^verbatim>\<open>k in d\<close>.\<close>

definition dict_has :: "(string \<times> pyval) list \<Rightarrow> string \<Rightarrow> bool" where
  "dict_has d k = (map_of d k \<noteq> None)"

text \<open>
  \<^verbatim>\<open>{**a, **b}\<close>: the keys of \<^verbatim>\<open>a\<close> in their order, each value replaced by the
  one of \<^verbatim>\<open>b\<close> when \<^verbatim>\<open>b\<close> has the key, then the new keys of \<^verbatim>\<open>b\<close>.
\<close>

definition dict_merge :: "(string \<times> pyval) list \<Rightarrow> (string \<times> pyval) list \<Rightarrow> (string \<times> pyval) list" where
  "dict_merge a b = foldl (\<lambda>d kv. AList.update (fst kv) (snd kv) d) a b"

subsection \<open>Text of a value\<close>

definition digit_char :: "nat \<Rightarrow> char" where
  "digit_char n = ''0123456789'' ! (n mod 10)"

fun str_of_nat :: "nat \<Rightarrow> string" where
  "str_of_nat n = (if n < 10 then [digit_char n] else str_of_nat (n div 10) @ [digit_char n])"

declare str_of_nat.simps [simp del]

definition str_of_int :: "int \<Rightarrow> string" where
  "str_of_int i = (if i < 0 then CHR ''-'' # str_of_nat (nat (- i)) else str_of_nat (nat i))"

definition hex_char :: "nat \<Rightarrow> char" where
  "hex_char n = ''0123456789abcdef'' ! (n mod 16)"

text \<open>\<^verbatim>\<open>repr\<close> of one character of a string, inside the quote \<^verbatim>\<open>q\<close>.\<close>

definition repr_char :: "char \<Rightarrow> char \<Rightarrow> string" where
  "repr_char q c =
     (let n = (of_char c :: nat) in
      if c = q \<or> c = CHR 0x5C then [CHR 0x5C, c]
      else if n = 9 then [CHR 0x5C, CHR ''t'']
      else if n = 10 then [CHR 0x5C, CHR ''n'']
      else if n = 13 then [CHR 0x5C, CHR ''r'']
      else if n < 32 \<or> (127 \<le> n \<and> n \<le> 160) \<or> n = 173
        then [CHR 0x5C, CHR ''x'', hex_char (n div 16), hex_char n]
      else [c])"

text \<open>
  \<^verbatim>\<open>repr\<close> of a string: single quotes, unless the string has a single quote and no
  double quote.
\<close>

definition repr_str :: "string \<Rightarrow> string" where
  "repr_str s =
     (let q = (if CHR 0x27 \<in> set s \<and> CHR 0x22 \<notin> set s then CHR 0x22 else CHR 0x27)
      in [q] @ concat (map (repr_char q) s) @ [q])"

fun join_sep :: "string \<Rightarrow> string list \<Rightarrow> string" where
  "join_sep sep [] = []"
| "join_sep sep [x] = x"
| "join_sep sep (x # y # ys) = x @ sep @ join_sep sep (y # ys)"

fun py_repr :: "pyval \<Rightarrow> string" where
  "py_repr PNone = ''None''"
| "py_repr (PBool b) = (if b then ''True'' else ''False'')"
| "py_repr (PInt i) = str_of_int i"
| "py_repr (PFloat r) = r"
| "py_repr (PStr s) = repr_str s"
| "py_repr (PList xs) = ''['' @ join_sep '', '' (map py_repr xs) @ '']''"
| "py_repr (PDict d) =
     ''{'' @ join_sep '', '' (map (\<lambda>kv. repr_str (fst kv) @ '': '' @ py_repr (snd kv)) d) @ ''}''"

text \<open>\<^verbatim>\<open>str(v)\<close>: the string itself for a string, \<^verbatim>\<open>repr\<close> otherwise.\<close>

definition py_str :: "pyval \<Rightarrow> string" where
  "py_str v = (case v of PStr s \<Rightarrow> s | _ \<Rightarrow> py_repr v)"

text \<open>\<^verbatim>\<open>s.lower()\<close> on code points below 256.\<close>

definition lower_char :: "char \<Rightarrow> char" where
  "lower_char c =
     (let n = (of_char c :: nat) in
      if (65 \<le> n \<and> n \<le> 90) \<or> (192 \<le> n \<and> n \<le> 222 \<and> n \<noteq> 215) then char_of (n + 32) else c)"

definition py_lower :: "string \<Rightarrow> string" where
  "py_lower s = map lower_char s"

text \<open>\<^verbatim>\<open>s.startswith(p)\<close> and \<^verbatim>\<open>needle in hay\<close> on strings, as searches.\<close>

fun starts_with :: "string \<Rightarrow> string \<Rightarrow> bool" where
  "starts_with s [] = True"
| "starts_with [] (p # ps) = False"
| "starts_with (c # cs) (p # ps) = (c = p \<and> starts_with cs ps)"

fun str_contains :: "string \<Rightarrow> string \<Rightarrow> bool" where
  "str_contains needle [] = (needle = [])"
| "str_contains needle (c # cs) = (starts_with (c # cs) needle \<or> str_contains needle cs)"

text \<open>\<^verbatim>\<open>s.split(sep)\<close> with a one-character separator: never the empty list.\<close>

fun split_on :: "char \<Rightarrow> string \<Rightarrow> string list" where
  "split_on sep [] = [[]]"
| "split_on sep (c # cs) =
     (if c = sep then [] # split_on sep cs
      else (case split_on sep cs of [] \<Rightarrow> [[c]] | p # ps \<Rightarrow> (c # p) # ps))"

section \<open>The client-side filter\<close>

text \<open>
  \<^verbatim>\<open>BexioClient._filter_by_criteria\<close>. The inner loop over the parts of the dotted
  path: a dict is looked up with \<^verbatim>\<open>get\<close>, anything else ends the walk with
  \<^verbatim>\<open>None\<close>.
\<close>

fun resolve :: "pyval \<Rightarrow> string list \<Rightarrow> pyval" where
  "resolve actual [] = actual"
| "resolve actual (part # parts) =
     (case actual of PDict d \<Rightarrow> resolve (dict_get d part) parts | _ \<Rightarrow> PNone)"

text \<open>
  One round of the loop of \<^verbatim>\<open>matches\<close>: \<^verbatim>\<open>Inr False\<close> is \<^verbatim>\<open>return False\<close>,
  \<^verbatim>\<open>Inr True\<close> goes on to the next condition, \<^verbatim>\<open>Inl\<close> is the exception raised
  (\<^verbatim>\<open>cond.get\<close> on a non-dict, \<^verbatim>\<open>.lower()\<close> or \<^verbatim>\<open>.split\<close> on a non-string).
  The operator is computed before the field is tested, as in the source.
\<close>

definition check_cond :: "pyval \<Rightarrow> pyval \<Rightarrow> py_error + bool" where
  "check_cond item cond =
     (case cond of
        PDict c \<Rightarrow>
          (let field = dict_get c ''field'';
               val = dict_get c ''value'';
               crit = py_or (dict_get c ''criteria'') (PStr ''='')
           in case crit of
                PStr cs \<Rightarrow>
                  (let op = py_lower cs in
                   if \<not> truthy field then Inr False
                   else case field of
                     PStr f \<Rightarrow>
                       (let actual = resolve item (split_on CHR ''.'' f) in
                        if op = ''='' then Inr (py_str actual = py_str val)
                        else if op = ''like'' then
                          (if val = PNone then Inr False
                           else Inr (str_contains (py_lower (py_str val)) (py_lower (py_str actual))))
                        else Inr False)
                   | _ \<Rightarrow> Inl (AttributeError (type_name field) ''split''))
              | _ \<Rightarrow> Inl (AttributeError (type_name crit) ''lower''))
      | _ \<Rightarrow> Inl (AttributeError (type_name cond) ''get''))"

fun matches :: "pyval list \<Rightarrow> pyval \<Rightarrow> py_error + bool" where
  "matches [] item = Inr True"
| "matches (cond # conds) item =
     (case check_cond item cond of
        Inl e \<Rightarrow> Inl e
      | Inr ok \<Rightarrow> if ok then matches conds item else Inr False)"

text \<open>Iterating a value, as \<^verbatim>\<open>for it in items\<close> does.\<close>

fun py_iter :: "pyval \<Rightarrow> py_error + pyval list" where
  "py_iter (PList xs) = Inr xs"
| "py_iter (PDict d) = Inr (map (\<lambda>kv. PStr (fst kv)) d)"
| "py_iter (PStr s) = Inr (map (\<lambda>c. PStr [c]) s)"
| "py_iter v = Inl (TypeError (type_name v))"

text \<open>The comprehension \<^verbatim>\<open>[it for it in items if matches(it)]\<close>, in order.\<close>

fun keep_matching :: "pyval list \<Rightarrow> pyval list \<Rightarrow> py_error + pyval list" where
  "keep_matching criteria [] = Inr []"
| "keep_matching criteria (it # its) =
     (case matches criteria it of
        Inl e \<Rightarrow> Inl e
      | Inr ok \<Rightarrow>
          (case keep_matching criteria its of
             Inl e \<Rightarrow> Inl e
           | Inr rest \<Rightarrow> Inr (if ok then it # rest else rest)))"

definition filter_by_criteria :: "pyval \<Rightarrow> pyval list \<Rightarrow> py_error + pyval" where
  "filter_by_criteria items criteria =
     (case py_iter items of
        Inl e \<Rightarrow> Inl e
      | Inr its \<Rightarrow> (case keep_matching criteria its of Inl e \<Rightarrow> Inl e | Inr kept \<Rightarrow> Inr (PList kept)))"

section \<open>The transport\<close>

text \<open>
  One HTTP exchange. The remote side is a function of its own state \<open>'w\<close>: it
  answers a request with a reply or with a fault of the connection, and moves to a new
  state. The client keeps, next to the remote state, the requests it has sent, in order.
  A reply carries its status, its raw text and what \<^verbatim>\<open>response.json()\<close> gives:
  the decoded value, or the message of the decoding error.
\<close>

record http_request =
  meth :: string
  path :: string
  params :: "(string \<times> pyval) list option"
  json_data :: "pyval option"

record http_response =
  status_code :: nat
  body_text :: string
  body_json :: "string + pyval"

datatype http_outcome = Fault string | Reply http_response

type_synonym 'w remote = "'w \<Rightarrow> http_request \<Rightarrow> http_outcome \<times> 'w"

type_synonym 'w net = "'w \<times> http_request list"

type_synonym 'w io = "'w net \<Rightarrow> (py_error + pyval) \<times> 'w net"

text \<open>
  The handler of \<^verbatim>\<open>httpx.HTTPStatusError\<close> in \<^verbatim>\<open>_request\<close>: the text after
  "Bexio API error - ". A body that does not decode, or decodes to something other than
  a dict (\<^verbatim>\<open>.get\<close> raises), gives the raw text.
\<close>

definition error_detail :: "http_response \<Rightarrow> string" where
  "error_detail r =
     (let detail = ''HTTP '' @ str_of_nat (status_code r) in
      case body_json r of
        Inr (PDict error_data) \<Rightarrow>
          (let message = py_or (py_or (dict_get error_data ''message'') (dict_get error_data ''error''))
                               (dict_get error_data ''detail'');
               detail1 = (if truthy message then detail @ '': '' @ py_str message else detail);
               field_errors = dict_get error_data ''errors''
           in if truthy field_errors then detail1 @ '' | errors: '' @ py_str field_errors else detail1)
      | _ \<Rightarrow> detail @ '': '' @ body_text r)"

text \<open>
  What \<^verbatim>\<open>_request\<close> makes of the outcome of \<^verbatim>\<open>client.request\<close>:
  \<^verbatim>\<open>raise_for_status\<close> raises for a status outside 200..299.
\<close>

fun request_result :: "http_outcome \<Rightarrow> py_error + pyval" where
  "request_result (Fault m) = Inl (ValueError (''Request failed: '' @ m))"
| "request_result (Reply r) =
     (if 200 \<le> status_code r \<and> status_code r \<le> 299 then
        (case body_json r of
           Inl m \<Rightarrow> Inl (ValueError (''Request failed: '' @ m))
         | Inr v \<Rightarrow> Inr v)
      else Inl (ValueError (''Bexio API error - '' @ error_detail r)))"

text \<open>\<^verbatim>\<open>BexioClient._request\<close>; the base URL is a constant prefix and is left out.\<close>

definition request ::
  "'w remote \<Rightarrow> string \<Rightarrow> string \<Rightarrow> (string \<times> pyval) list option \<Rightarrow> pyval option \<Rightarrow> 'w io" where
  "request remote method endpoint ps body s =
     (let p = (if starts_with endpoint ''/'' then endpoint else ''/'' @ endpoint);
          req = \<lparr>meth = method, path = p, params = ps, json_data = body\<rparr>;
          ans = remote (fst s) req
      in (request_result (fst ans), (snd ans, snd s @ [req])))"

definition get :: "'w remote \<Rightarrow> string \<Rightarrow> (string \<times> pyval) list option \<Rightarrow> 'w io" where
  "get remote endpoint ps = request remote ''GET'' endpoint ps None"

definition post :: "'w remote \<Rightarrow> string \<Rightarrow> pyval \<Rightarrow> 'w io" where
  "post remote endpoint data = request remote ''POST'' endpoint None (Some data)"

definition put :: "'w remote \<Rightarrow> string \<Rightarrow> pyval \<Rightarrow> 'w io" where
  "put remote endpoint data = request remote ''PUT'' endpoint None (Some data)"

section \<open>Resource methods\<close>

text \<open>The query parameters every \<^verbatim>\<open>list_*\<close> method builds from its optional arguments.\<close>

definition list_params :: "int option \<Rightarrow> int option \<Rightarrow> string option \<Rightarrow> (string \<times> pyval) list" where
  "list_params limit offset order_by =
     (case limit of None \<Rightarrow> [] | Some l \<Rightarrow> [(''limit'', PInt l)]) @
     (case offset of None \<Rightarrow> [] | Some off \<Rightarrow> [(''offset'', PInt off)]) @
     (case order_by of None \<Rightarrow> [] | Some ob \<Rightarrow> [(''order_by'', PStr ob)])"

definition list_invoices :: "'w remote \<Rightarrow> int option \<Rightarrow> int option \<Rightarrow> string option \<Rightarrow> 'w io" where
  "list_invoices remote limit offset order_by =
     get remote ''/2.0/kb_invoice'' (Some (list_params limit offset order_by))"

definition list_quotes :: "'w remote \<Rightarrow> int option \<Rightarrow> int option \<Rightarrow> string option \<Rightarrow> 'w io" where
  "list_quotes remote limit offset order_by =
     get remote ''/2.0/kb_offer'' (Some (list_params limit offset order_by))"

definition list_timesheets :: "'w remote \<Rightarrow> int option \<Rightarrow> int option \<Rightarrow> string option \<Rightarrow> 'w io" where
  "list_timesheets remote limit offset order_by =
     get remote ''/2.0/timesheet'' (Some (list_params limit offset order_by))"

subsection \<open>Search with fallbacks\<close>

text \<open>
  \<^verbatim>\<open>search_invoices\<close>, \<^verbatim>\<open>search_quotes\<close> and \<^verbatim>\<open>search_timesheets\<close>: nested
  \<^verbatim>\<open>try\<close> blocks, each \<^verbatim>\<open>except ValueError\<close>. An exception of the list request or
  of the filter is not caught.
\<close>

definition wrapped :: "pyval list \<Rightarrow> pyval" where
  "wrapped criteria = PDict [(''criteria'', PList criteria)]"

definition search_invoices :: "'w remote \<Rightarrow> pyval list \<Rightarrow> int \<Rightarrow> 'w io" where
  "search_invoices remote criteria fallback_limit s =
     (case post remote ''/2.0/kb_invoice/search'' (PList criteria) s of
        (Inr found, s1) \<Rightarrow> (Inr found, s1)
      | (Inl e, s1) \<Rightarrow>
          if is_ValueError e then
            (case post remote ''/2.0/kb_invoice/search'' (wrapped criteria) s1 of
               (Inr found, s2) \<Rightarrow> (Inr found, s2)
             | (Inl e2, s2) \<Rightarrow>
                 if is_ValueError e2 then
                   (case list_invoices remote (Some fallback_limit) None None s2 of
                      (Inr batch, s3) \<Rightarrow> (filter_by_criteria batch criteria, s3)
                    | (Inl e3, s3) \<Rightarrow> (Inl e3, s3))
                 else (Inl e2, s2))
          else (Inl e, s1))"

definition search_quotes :: "'w remote \<Rightarrow> pyval list \<Rightarrow> int \<Rightarrow> 'w io" where
  "search_quotes remote criteria fallback_limit s =
     (case post remote ''/2.0/kb_offer/search'' (PList criteria) s of
        (Inr found, s1) \<Rightarrow> (Inr found, s1)
      | (Inl e, s1) \<Rightarrow>
          if is_ValueError e then
            (case post remote ''/2.0/kb_offer/search'' (wrapped criteria) s1 of
               (Inr found, s2) \<Rightarrow> (Inr found, s2)
             | (Inl e2, s2) \<Rightarrow>
                 if is_ValueError e2 then
                   (case list_quotes remote (Some fallback_limit) None None s2 of
                      (Inr batch, s3) \<Rightarrow> (filter_by_criteria batch criteria, s3)
                    | (Inl e3, s3) \<Rightarrow> (Inl e3, s3))
                 else (Inl e2, s2))
          else (Inl e, s1))"

definition search_timesheets :: "'w remote \<Rightarrow> pyval list \<Rightarrow> int \<Rightarrow> 'w io" where
  "search_timesheets remote criteria fallback_limit s =
     (case post remote ''/2.0/timesheet/search'' (PList criteria) s of
        (Inr found, s1) \<Rightarrow> (Inr found, s1)
      | (Inl e, s1) \<Rightarrow>
          if is_ValueError e then
            (case post remote ''/2.0/timesheet/search'' (wrapped criteria) s1 of
               (Inr found, s2) \<Rightarrow> (Inr found, s2)
             | (Inl e2, s2) \<Rightarrow>
                 if is_ValueError e2 then
                   (case list_timesheets remote (Some fallback_limit) None None s2 of
                      (Inr batch, s3) \<Rightarrow> (filter_by_criteria batch criteria, s3)
                    | (Inl e3, s3) \<Rightarrow> (Inl e3, s3))
                 else (Inl e2, s2))
          else (Inl e, s1))"

text \<open>The keyword argument \<^verbatim>\<open>fallback_limit: int = 200\<close>; \<^verbatim>\<open>call_tool\<close> never passes it.\<close>

definition default_fallback_limit :: int where
  "default_fallback_limit = 200"

text \<open>The three resource kinds with the cascade, their endpoints and their methods.\<close>

datatype tiered_kind = Invoice | Quote | Timesheet

fun search_path :: "tiered_kind \<Rightarrow> string" where
  "search_path Invoice = ''/2.0/kb_invoice/search''"
| "search_path Quote = ''/2.0/kb_offer/search''"
| "search_path Timesheet = ''/2.0/timesheet/search''"

fun list_path :: "tiered_kind \<Rightarrow> string" where
  "list_path Invoice = ''/2.0/kb_invoice''"
| "list_path Quote = ''/2.0/kb_offer''"
| "list_path Timesheet = ''/2.0/timesheet''"

fun search_tiered :: "tiered_kind \<Rightarrow> 'w remote \<Rightarrow> pyval list \<Rightarrow> int \<Rightarrow> 'w io" where
  "search_tiered Invoice = search_invoices"
| "search_tiered Quote = search_quotes"
| "search_tiered Timesheet = search_timesheets"

subsection \<open>Search without fallbacks\<close>

definition search_contacts :: "'w remote \<Rightarrow> pyval list \<Rightarrow> 'w io" where
  "search_contacts remote criteria = post remote ''/2.0/contact/search'' (PList criteria)"

definition search_orders :: "'w remote \<Rightarrow> pyval list \<Rightarrow> 'w io" where
  "search_orders remote criteria = post remote ''/2.0/kb_order/search'' (wrapped criteria)"

definition search_projects :: "'w remote \<Rightarrow> pyval list \<Rightarrow> 'w io" where
  "search_projects remote criteria = post remote ''/2.0/pr_project/search'' (wrapped criteria)"

definition search_items :: "'w remote \<Rightarrow> pyval list \<Rightarrow> 'w io" where
  "search_items remote criteria = post remote ''/2.0/article/search'' (wrapped criteria)"

definition search_accounts :: "'w remote \<Rightarrow> pyval list \<Rightarrow> 'w io" where
  "search_accounts remote criteria = post remote ''/2.0/accounts/search'' (PList criteria)"

definition search_calendar_years :: "'w remote \<Rightarrow> pyval list \<Rightarrow> 'w io" where
  "search_calendar_years remote criteria =
     post remote ''/3.0/accounting/calendar_years/search'' (PList criteria)"

definition search_client_services :: "'w remote \<Rightarrow> pyval list \<Rightarrow> 'w io" where
  "search_client_services remote criteria = post remote ''/2.0/client_service/search'' (PList criteria)"

definition search_business_activities :: "'w remote \<Rightarrow> pyval list \<Rightarrow> 'w io" where
  "search_business_activities remote criteria =
     post remote ''/2.0/business_activity/search'' (PList criteria)"

datatype plain_kind =
  Contact | Order | Project | Item | Account | CalendarYear | ClientService | BusinessActivity

fun search_plain :: "plain_kind \<Rightarrow> 'w remote \<Rightarrow> pyval list \<Rightarrow> 'w io" where
  "search_plain Contact = search_contacts"
| "search_plain Order = search_orders"
| "search_plain Project = search_projects"
| "search_plain Item = search_items"
| "search_plain Account = search_accounts"
| "search_plain CalendarYear = search_calendar_years"
| "search_plain ClientService = search_client_services"
| "search_plain BusinessActivity = search_business_activities"

fun plain_search_path :: "plain_kind \<Rightarrow> string" where
  "plain_search_path Contact = ''/2.0/contact/search''"
| "plain_search_path Order = ''/2.0/kb_order/search''"
| "plain_search_path Project = ''/2.0/pr_project/search''"
| "plain_search_path Item = ''/2.0/article/search''"
| "plain_search_path Account = ''/2.0/accounts/search''"
| "plain_search_path CalendarYear = ''/3.0/accounting/calendar_years/search''"
| "plain_search_path ClientService = ''/2.0/client_service/search''"
| "plain_search_path BusinessActivity = ''/2.0/business_activity/search''"

text \<open>The body each of them posts: the criteria list as it is, or under the key "criteria".\<close>

fun plain_search_body :: "plain_kind \<Rightarrow> pyval list \<Rightarrow> pyval" where
  "plain_search_body Order criteria = wrapped criteria"
| "plain_search_body Project criteria = wrapped criteria"
| "plain_search_body Item criteria = wrapped criteria"
| "plain_search_body k criteria = PList criteria"

subsection \<open>Updates\<close>

text \<open>
  \<^verbatim>\<open>update_contact\<close>: the alias "email" is renamed to "mail" in a copy of the
  caller's data; then, inside one \<^verbatim>\<open>try\<close>, the contact is fetched, merged under the
  caller's data and put. \<^verbatim>\<open>except Exception\<close> covers the whole block: a failed fetch, a
  fetched value that is no mapping, and a failed put of the merged record all lead to a
  put of the caller's data alone.
\<close>

definition normalize_contact :: "(string \<times> pyval) list \<Rightarrow> (string \<times> pyval) list" where
  "normalize_contact contact_data =
     (if dict_has contact_data ''email'' \<and> \<not> dict_has contact_data ''mail''
      then AList.update ''mail'' (dict_get contact_data ''email'') (AList.delete ''email'' contact_data)
      else contact_data)"

definition get_contact :: "'w remote \<Rightarrow> int \<Rightarrow> 'w io" where
  "get_contact remote contact_id = get remote (''/2.0/contact/'' @ str_of_int contact_id) None"

definition update_contact :: "'w remote \<Rightarrow> int \<Rightarrow> (string \<times> pyval) list \<Rightarrow> 'w io" where
  "update_contact remote contact_id contact_data s =
     (let normalized = normalize_contact contact_data;
          endpoint = ''/2.0/contact/'' @ str_of_int contact_id
      in case get_contact remote contact_id s of
           (Inr (PDict existing), s1) \<Rightarrow>
             (case put remote endpoint (PDict (dict_merge existing normalized)) s1 of
                (Inr done, s2) \<Rightarrow> (Inr done, s2)
              | (Inl e, s2) \<Rightarrow> put remote endpoint (PDict normalized) s2)
         | (_, s1) \<Rightarrow> put remote endpoint (PDict normalized) s1)"

text \<open>The other update methods of the client put the caller's data as it is.\<close>

definition update_invoice :: "'w remote \<Rightarrow> int \<Rightarrow> (string \<times> pyval) list \<Rightarrow> 'w io" where
  "update_invoice remote invoice_id invoice_data =
     put remote (''/2.0/kb_invoice/'' @ str_of_int invoice_id) (PDict invoice_data)"

definition update_quote :: "'w remote \<Rightarrow> int \<Rightarrow> (string \<times> pyval) list \<Rightarrow> 'w io" where
  "update_quote remote quote_id quote_data =
     put remote (''/2.0/kb_offer/'' @ str_of_int quote_id) (PDict quote_data)"

definition update_order :: "'w remote \<Rightarrow> int \<Rightarrow> (string \<times> pyval) list \<Rightarrow> 'w io" where
  "update_order remote order_id order_data =
     put remote (''/2.0/kb_order/'' @ str_of_int order_id) (PDict order_data)"

definition update_project :: "'w remote \<Rightarrow> int \<Rightarrow> (string \<times> pyval) list \<Rightarrow> 'w io" where
  "update_project remote project_id project_data =
     put remote (''/2.0/pr_project/'' @ str_of_int project_id) (PDict project_data)"

definition update_item :: "'w remote \<Rightarrow> int \<Rightarrow> (string \<times> pyval) list \<Rightarrow> 'w io" where
  "update_item remote item_id item_data =
     put remote (''/2.0/article/'' @ str_of_int item_id) (PDict item_data)"

section \<open>The dispatcher's error path\<close>

text \<open>\<^verbatim>\<open>str(e)\<close> of a caught exception.\<close>

fun error_text :: "py_error \<Rightarrow> string" where
  "error_text (ValueError m) = m"
| "error_text (AttributeError t a) =
     [CHR 0x27] @ t @ [CHR 0x27] @ '' object has no attribute '' @ [CHR 0x27] @ a @ [CHR 0x27]"
| "error_text (TypeError t) = [CHR 0x27] @ t @ [CHR 0x27] @ '' object is not iterable''"

text \<open>
  The \<^verbatim>\<open>except Exception\<close> clause of \<^verbatim>\<open>call_tool\<close> in \<^verbatim>\<open>server.py\<close>. The global
  \<^verbatim>\<open>field_validator\<close> is \<^verbatim>\<open>None\<close> until the client has been created; its method
  \<^verbatim>\<open>create_helpful_error_message\<close> is not among the sources and is a parameter here.
\<close>

definition call_tool_except :: "(string \<Rightarrow> string) option \<Rightarrow> py_error \<Rightarrow> string" where
  "call_tool_except field_validator e =
     (let error_msg = error_text e in
      if str_contains ''422'' error_msg \<or> str_contains ''HTTP 422'' error_msg then
        (case field_validator of
           Some create_helpful_error_message \<Rightarrow> create_helpful_error_message error_msg
         | None \<Rightarrow> ''Error: '' @ error_msg)
      else ''Error: '' @ error_msg)"

text \<open>An enhancer to run the error path on: it puts a note in front of the raw text.\<close>

definition sample_enhancer :: "string \<Rightarrow> string" where
  "sample_enhancer error_msg = ''Validation failed. '' @ error_msg"

section \<open>Static defaults of the completion engine\<close>

text \<open>
  Modelled from the spec: the completion engine (\<^verbatim>\<open>auto_complete_fields\<close> of the module
  \<^verbatim>\<open>field_validator\<close>, which \<^verbatim>\<open>server.py\<close> imports) is not among the sources. A STATIC
  rule is a field with its literal default; for a create, each rule whose field is absent
  from the payload inserts the default, in the order of the rules, and a field that is
  present is left alone whatever its value.
\<close>

definition apply_static :: "(string \<times> pyval) list \<Rightarrow> string \<times> pyval \<Rightarrow> (string \<times> pyval) list" where
  "apply_static payload rule =
     (if dict_has payload (fst rule) then payload else payload @ [rule])"

text \<open>
  Modelled from the spec: \<^verbatim>\<open>complete\<close> for a create operation, restricted to the STATIC
  rules of the kind.
\<close>

definition complete_create :: "(string \<times> pyval) list \<Rightarrow> (string \<times> pyval) list \<Rightarrow> (string \<times> pyval) list" where
  "complete_create rules payload = foldl apply_static payload rules"

text \<open>
  Modelled from the spec: the STATIC rules of a contact, which the engine's source would
  declare; the spec gives \<^verbatim>\<open>contact_type_id=2\<close>, \<^verbatim>\<open>user_id=1\<close> and \<^verbatim>\<open>owner_id=1\<close>.
\<close>

definition contact_rules :: "(string \<times> pyval) list" where
  "contact_rules = [(''contact_type_id'', PInt 2), (''user_id'', PInt 1), (''owner_id'', PInt 1)]"

text \<open>
  Modelled from the spec: STATIC rules of an item, whose defaults are falsy values or sit
  next to them; the spec names \<^verbatim>\<open>currency_id=1\<close>, \<^verbatim>\<open>is_stock=false\<close> and
  \<^verbatim>\<open>delivery_price=0\<close>, as does the module text of \<^verbatim>\<open>server.py\<close>.
\<close>

definition item_rules :: "(string \<times> pyval) list" where
  "item_rules = [(''currency_id'', PInt 1), (''is_stock'', PBool False), (''delivery_price'', PInt 0)]"

section \<open>Remote sides to run the client on\<close>

text \<open>
  A remote side that answers from a script: its state is the list of outcomes still to
  give, and a fault of the connection once the script is used up.
\<close>

fun scripted :: "http_outcome list remote" where
  "scripted [] req = (Fault ''connection refused'', [])"
| "scripted (out # outs) req = (out, outs)"

text \<open>
  Sample replies. The client reads the raw text of a reply only on the error path, so a
  reply with a success status is given by the value its body decodes to. The two refusals
  have a body of plain text, which does not decode.
\<close>

definition ok_json :: "pyval \<Rightarrow> http_outcome" where
  "ok_json v = Reply \<lparr>status_code = 200, body_text = [], body_json = Inr v\<rparr>"

definition unprocessable :: http_outcome where
  "unprocessable =
     Reply \<lparr>status_code = 422, body_text = ''Unprocessable Entity'',
            body_json = Inl ''Expecting value: line 1 column 1 (char 0)''\<rparr>"

definition server_error :: http_outcome where
  "server_error =
     Reply \<lparr>status_code = 500, body_text = ''Internal Server Error'',
            body_json = Inl ''Expecting value: line 1 column 1 (char 0)''\<rparr>"

text \<open>
  Replies with a JSON body: a validation error with a message and field errors, a missing
  record whose message has the digits 422 in it, and a success without content.
\<close>

definition validation_response :: http_response where
  \<open>validation_response =
     \<lparr>status_code = 422,
      body_text = ''{"error_code": 422, "message": "Validation failed", "errors": ["field not set"]}'',
      body_json = Inr (PDict [(''error_code'', PInt 422), (''message'', PStr ''Validation failed''),
                              (''errors'', PList [PStr ''field not set''])])\<rparr>\<close>

definition not_found_response :: http_response where
  \<open>not_found_response =
     \<lparr>status_code = 404,
      body_text = ''{"error_code": 404, "message": "Invoice 422 not found"}'',
      body_json = Inr (PDict [(''error_code'', PInt 404), (''message'', PStr ''Invoice 422 not found'')])\<rparr>\<close>

definition no_content_response :: http_response where
  "no_content_response =
     \<lparr>status_code = 204, body_text = [],
      body_json = Inl ''Expecting value: line 1 column 1 (char 0)''\<rparr>"

section \<open>Notions used to state the properties\<close>

text \<open>
  A condition of the declared shape: a dict whose "field" is a non-empty string and whose
  "criteria" is a non-empty string.
\<close>

definition cond_shape :: "pyval \<Rightarrow> bool" where
  "cond_shape cond =
     (case cond of
        PDict c \<Rightarrow>
          (case (dict_get c ''field'', dict_get c ''criteria'') of
             (PStr f, PStr cs) \<Rightarrow> f \<noteq> [] \<and> cs \<noteq> []
           | _ \<Rightarrow> False)
      | _ \<Rightarrow> False)"

text \<open>
  The specification's reading of one condition, in its own words: the operator is the
  "criteria" string as the filter dispatches on it (in lower case); "=" holds when the two
  texts are equal, "like" when the expected value is not \<^verbatim>\<open>None\<close> and its lower-case
  text occurs in the lower-case text of the actual value (\<^const>\<open>sublist\<close> is the
  contiguous-part relation of the library); no other operator holds.
\<close>

definition spec_satisfied :: "pyval \<Rightarrow> pyval \<Rightarrow> bool" where
  "spec_satisfied record cond =
     (case cond of
        PDict c \<Rightarrow>
          (case (dict_get c ''field'', dict_get c ''criteria'') of
             (PStr f, PStr cs) \<Rightarrow>
               (let actual = resolve record (split_on CHR ''.'' f);
                    expected = dict_get c ''value'';
                    op = py_lower cs
                in (op = ''='' \<and> py_str actual = py_str expected) \<or>
                   (op = ''like'' \<and> expected \<noteq> PNone \<and>
                      sublist (py_lower (py_str expected)) (py_lower (py_str actual))))
           | _ \<Rightarrow> False)
      | _ \<Rightarrow> False)"

text \<open>
  A condition whose parts have the declared types where they are given: a dict whose
  "field" and "criteria" are each a string, or absent, or some falsy value.
\<close>

definition cond_typed :: "pyval \<Rightarrow> bool" where
  "cond_typed cond =
     (case cond of
        PDict c \<Rightarrow>
          (case dict_get c ''field'' of PStr f \<Rightarrow> True | v \<Rightarrow> \<not> truthy v) \<and>
          (case dict_get c ''criteria'' of PStr cs \<Rightarrow> True | v \<Rightarrow> \<not> truthy v)
      | _ \<Rightarrow> False)"

text \<open>The three requests of the cascade, as they go over the wire.\<close>

definition tier1_request :: "tiered_kind \<Rightarrow> pyval list \<Rightarrow> http_request" where
  "tier1_request k criteria =
     \<lparr>meth = ''POST'', path = search_path k, params = None, json_data = Some (PList criteria)\<rparr>"

definition tier2_request :: "tiered_kind \<Rightarrow> pyval list \<Rightarrow> http_request" where
  "tier2_request k criteria =
     \<lparr>meth = ''POST'', path = search_path k, params = None,
      json_data = Some (PDict [(''criteria'', PList criteria)])\<rparr>"

definition tier3_request :: "tiered_kind \<Rightarrow> int \<Rightarrow> http_request" where
  "tier3_request k fallback_limit =
     \<lparr>meth = ''GET'', path = list_path k, params = Some [(''limit'', PInt fallback_limit)],
      json_data = None\<rparr>"

text \<open>The two requests of the contact update.\<close>

definition contact_get_request :: "int \<Rightarrow> http_request" where
  "contact_get_request contact_id =
     \<lparr>meth = ''GET'', path = ''/2.0/contact/'' @ str_of_int contact_id, params = None, json_data = None\<rparr>"

definition contact_put_request :: "int \<Rightarrow> (string \<times> pyval) list \<Rightarrow> http_request" where
  "contact_put_request contact_id payload =
     \<lparr>meth = ''PUT'', path = ''/2.0/contact/'' @ str_of_int contact_id, params = None,
      json_data = Some (PDict payload)\<rparr>"

text \<open>Values to run the definitions on.\<close>

definition zurich_like :: pyval where
  "zurich_like = PDict [(''field'', PStr ''city''), (''value'', PStr ''Zurich''), (''criteria'', PStr ''like'')]"

definition zurich_batch :: pyval where
  "zurich_batch =
     PList [PDict [(''id'', PInt 1), (''city'', PStr ''Zurichshire'')],
            PDict [(''id'', PInt 2), (''city'', PStr ''Bern'')],
            PDict [(''id'', PInt 3), (''city'', PStr ''ZURICH'')]]"

definition city_record :: pyval where
  "city_record = PDict [(''city'', PStr ''Zurichshire'')]"



definition existing_contact :: "(string \<times> pyval) list" where
  "existing_contact =
     [(''id'', PInt 7), (''name_1'', PStr ''Muster AG''), (''contact_type_id'', PInt 1),
      (''user_id'', PInt 1), (''owner_id'', PInt 1), (''mail'', PStr ''info@muster.example'')]"

definition updated_contact :: "(string \<times> pyval) list" where
  "updated_contact =
     [(''id'', PInt 7), (''name_1'', PStr ''Muster GmbH''), (''contact_type_id'', PInt 1),
      (''user_id'', PInt 1), (''owner_id'', PInt 1), (''mail'', PStr ''info@muster.example'')]"

section \<open>Properties of the filter\<close>

lemma starts_with_prefix: "starts_with s p = prefix p s"
  by (induction s p rule: starts_with.induct) auto

lemma str_contains_sublist: "str_contains needle hay = sublist needle hay"
  by (induction hay) (auto simp: starts_with_prefix sublist_Cons_right)

lemma check_cond_shaped:
  assumes "cond_shape cond"
  shows "check_cond record cond = Inr (spec_satisfied record cond)"
proof -
  from assms obtain c f cs where c: "cond = PDict c"
    and f: "dict_get c ''field'' = PStr f" "f \<noteq> []"
    and cs: "dict_get c ''criteria'' = PStr cs" "cs \<noteq> []"
    by (auto simp: cond_shape_def split: pyval.splits)
  show ?thesis
    using f cs
    by (simp add: c check_cond_def spec_satisfied_def py_or_def str_contains_sublist Let_def)
qed

text \<open>
  C2. For every record and every list of conditions of the shape \<open>{field, value, criteria}\<close>,
  \<^verbatim>\<open>matches\<close> returns true if and only if every condition of the list is satisfied, where
  a condition is satisfied as the specification says: under "=" when the texts of the
  actual and the expected value are equal (never a numeric comparison), under "like" when the
  expected value is not \<^verbatim>\<open>None\<close> and its lower-case text is a part of the lower-case text
  of the actual value, and under no other operator.
\<close>

theorem matches_iff_all_satisfied:
  assumes "\<forall>c\<in>set conds. cond_shape c"
  shows "matches conds record = Inr (\<forall>c\<in>set conds. spec_satisfied record c)"
  using assms
proof (induction conds)
  case Nil
  show ?case by simp
next
  case (Cons c cs)
  then show ?case by (simp add: check_cond_shaped)
qed

theorem matches_iff_all_satisfied_witness:
  "matches [zurich_like] (PDict [(''city'', PStr ''Zurichshire'')]) = Inr True \<and>
   matches [zurich_like] (PDict [(''city'', PStr ''Bern'')]) = Inr False \<and>
   matches [PDict [(''field'', PStr ''city''), (''value'', PStr ''Bern''), (''criteria'', PStr ''>'')]]
     (PDict [(''city'', PStr ''Bern'')]) = Inr False \<and>
   matches [PDict [(''field'', PStr ''n''), (''value'', PStr ''7''), (''criteria'', PStr ''='')]]
     (PDict [(''n'', PInt 7)]) = Inr True"
proof -
  have sh: "\<forall>c\<in>set [zurich_like]. cond_shape c"
    by (simp add: cond_shape_def zurich_like_def dict_get_def)
  have sh_gt: "\<forall>c\<in>set [PDict [(''field'', PStr ''city''), (''value'', PStr ''Bern''), (''criteria'', PStr ''>'')]].
                 cond_shape c"
    by (simp add: cond_shape_def dict_get_def)
  have sh_eq: "\<forall>c\<in>set [PDict [(''field'', PStr ''n''), (''value'', PStr ''7''), (''criteria'', PStr ''='')]].
                 cond_shape c"
    by (simp add: cond_shape_def dict_get_def)
  have a: "spec_satisfied (PDict [(''city'', PStr ''Zurichshire'')]) zurich_like"
    by code_simp
  have b: "\<not> spec_satisfied (PDict [(''city'', PStr ''Bern'')]) zurich_like"
    by code_simp
  have c: "\<not> spec_satisfied (PDict [(''city'', PStr ''Bern'')])
               (PDict [(''field'', PStr ''city''), (''value'', PStr ''Bern''), (''criteria'', PStr ''>'')])"
    by code_simp
  have d: "spec_satisfied (PDict [(''n'', PInt 7)])
               (PDict [(''field'', PStr ''n''), (''value'', PStr ''7''), (''criteria'', PStr ''='')])"
    by code_simp
  show ?thesis
    using matches_iff_all_satisfied [OF sh, of "PDict [(''city'', PStr ''Zurichshire'')]"]
          matches_iff_all_satisfied [OF sh, of "PDict [(''city'', PStr ''Bern'')]"]
          matches_iff_all_satisfied [OF sh_gt, of "PDict [(''city'', PStr ''Bern'')]"]
          matches_iff_all_satisfied [OF sh_eq, of "PDict [(''n'', PInt 7)]"]
          a b c d
    by simp
qed





lemma typed_operator:
  assumes "cond_typed (PDict c)"
  shows "\<exists>cs. py_or (dict_get c ''criteria'') (PStr ''='') = PStr cs"
  using assms by (cases "dict_get c ''criteria''") (auto simp: cond_typed_def py_or_def)

lemma check_cond_typed:
  assumes "cond_typed cond"
  shows "\<exists>b. check_cond item cond = Inr b"
proof -
  from assms obtain c where c: "cond = PDict c"
    by (auto simp: cond_typed_def split: pyval.splits)
  from typed_operator assms c obtain cs
    where cs: "py_or (dict_get c ''criteria'') (PStr ''='') = PStr cs" by blast
  from assms c have "(\<exists>f. dict_get c ''field'' = PStr f) \<or> \<not> truthy (dict_get c ''field'')"
    by (cases "dict_get c ''field''") (auto simp: cond_typed_def)
  then show ?thesis
    by (auto simp: c check_cond_def cs Let_def)
qed

lemma matches_typed:
  assumes "\<forall>c\<in>set conds. cond_typed c"
  shows "matches conds item = Inr (\<forall>c\<in>set conds. check_cond item c = Inr True)"
  using assms
proof (induction conds)
  case Nil
  show ?case by simp
next
  case (Cons c cs)
  then obtain b where "check_cond item c = Inr b"
    using check_cond_typed [of c item] by auto
  with Cons show ?case by auto
qed




lemma dict_get_update:
  "dict_get (AList.update k v c) k' = (if k' = k then v else dict_get c k')"
  by (simp add: dict_get_def update_conv')

lemma of_char_lower_char:
  "of_char (lower_char c) = (let n = (of_char c :: nat) in
      if (65 \<le> n \<and> n \<le> 90) \<or> (192 \<le> n \<and> n \<le> 222 \<and> n \<noteq> 215) then n + 32 else n)"
  by (auto simp: lower_char_def Let_def)

lemma lower_char_idem: "lower_char (lower_char c) = lower_char c"
  unfolding lower_char_def [of "lower_char c"] of_char_lower_char
  by (auto simp: Let_def)

lemma py_lower_idem: "py_lower (py_lower s) = py_lower s"
  by (simp add: py_lower_def lower_char_idem)

lemma py_lower_Nil: "py_lower s = [] \<longleftrightarrow> s = []"
  by (simp add: py_lower_def)

lemma default_operator:
  assumes "map_of c ''criteria'' = None \<or> map_of c ''criteria'' = Some PNone"
  shows "check_cond item (PDict c) = check_cond item (PDict (AList.update ''criteria'' (PStr ''='') c))"
proof -
  from assms have "dict_get c ''criteria'' = PNone"
    by (auto simp: dict_get_def)
  then show ?thesis
    by (simp add: check_cond_def dict_get_update py_or_def)
qed

lemma operator_lower_case:
  "check_cond item (PDict (AList.update ''criteria'' (PStr cs) c)) =
   check_cond item (PDict (AList.update ''criteria'' (PStr (py_lower cs)) c))"
  by (simp add: check_cond_def dict_get_update py_or_def py_lower_idem py_lower_Nil)

lemma falsy_field:
  assumes "cond_typed (PDict c)" and "\<not> truthy (dict_get c ''field'')"
  shows "check_cond item (PDict c) = Inr False"
proof -
  from typed_operator [OF assms(1)] obtain cs
    where cs: "py_or (dict_get c ''criteria'') (PStr ''='') = PStr cs" ..
  with assms(2) show ?thesis by (simp add: check_cond_def)
qed

text \<open>
  C10. In the client-side filter a condition whose "criteria" key is absent or \<^verbatim>\<open>None\<close>
  is evaluated as the same condition with the operator "="; the operator is put in lower
  case before the dispatch, so a condition with operator \<open>cs\<close> is evaluated as the one with
  \<open>cs\<close> in lower case ("LIKE" as "like"); and a condition whose "field" key is absent,
  \<^verbatim>\<open>None\<close> or the empty string makes the record not match, without an exception.
\<close>

theorem operator_and_field_defaults:
  "(map_of c ''criteria'' = None \<or> map_of c ''criteria'' = Some PNone \<longrightarrow>
      check_cond item (PDict c) =
        check_cond item (PDict (AList.update ''criteria'' (PStr ''='') c))) \<and>
   check_cond item (PDict (AList.update ''criteria'' (PStr cs) c)) =
     check_cond item (PDict (AList.update ''criteria'' (PStr (py_lower cs)) c)) \<and>
   ((\<forall>cond\<in>set conds. cond_typed cond) \<and> PDict c \<in> set conds \<and>
      (map_of c ''field'' = None \<or> map_of c ''field'' = Some PNone \<or> map_of c ''field'' = Some (PStr [])) \<longrightarrow>
      matches conds item = Inr False)"
proof -
  have "matches conds item = Inr False"
    if typed: "\<forall>cond\<in>set conds. cond_typed cond" and mem: "PDict c \<in> set conds"
      and fld: "map_of c ''field'' = None \<or> map_of c ''field'' = Some PNone \<or> map_of c ''field'' = Some (PStr [])"
  proof -
    from fld have "\<not> truthy (dict_get c ''field'')"
      by (auto simp: dict_get_def)
    with typed mem have "check_cond item (PDict c) = Inr False"
      by (simp add: falsy_field)
    with mem have "\<not> (\<forall>cond\<in>set conds. check_cond item cond = Inr True)"
      by force
    then show ?thesis by (simp add: matches_typed [OF typed])
  qed
  then show ?thesis
    using default_operator [of c item] operator_lower_case [of item cs c] by blast
qed

theorem operator_and_field_defaults_witness:
  "check_cond city_record (PDict [(''field'', PStr ''city''), (''value'', PStr ''Zurichshire'')]) = Inr True \<and>
   check_cond city_record (PDict [(''field'', PStr ''city''), (''value'', PStr ''Zurichshire''), (''criteria'', PNone)])
     = Inr True \<and>
   check_cond city_record (PDict [(''field'', PStr ''city''), (''value'', PStr ''Zurich''), (''criteria'', PStr ''LIKE'')])
     = check_cond city_record (PDict [(''field'', PStr ''city''), (''value'', PStr ''Zurich''), (''criteria'', PStr ''like'')]) \<and>
   matches [PDict [(''value'', PStr ''Zurich''), (''criteria'', PStr ''like'')]] city_record = Inr False \<and>
   matches [PDict [(''field'', PNone), (''value'', PStr ''Zurich'')]] city_record = Inr False \<and>
   matches [PDict [(''field'', PStr []), (''value'', PStr ''Zurich'')]] city_record = Inr False"
proof -
  have eq: "check_cond city_record
              (PDict [(''field'', PStr ''city''), (''value'', PStr ''Zurichshire''), (''criteria'', PStr ''='')]) = Inr True"
    by code_simp
  have up: "py_lower ''LIKE'' = ''like''"
    by code_simp
  have t1: "\<forall>cond\<in>set [PDict [(''value'', PStr ''Zurich''), (''criteria'', PStr ''like'')]]. cond_typed cond"
    by (simp add: cond_typed_def dict_get_def)
  have t2: "\<forall>cond\<in>set [PDict [(''field'', PNone), (''value'', PStr ''Zurich'')]]. cond_typed cond"
    by (simp add: cond_typed_def dict_get_def)
  have t3: "\<forall>cond\<in>set [PDict [(''field'', PStr []), (''value'', PStr ''Zurich'')]]. cond_typed cond"
    by (simp add: cond_typed_def dict_get_def)
  have w1: "check_cond city_record (PDict [(''field'', PStr ''city''), (''value'', PStr ''Zurichshire'')]) = Inr True"
    using operator_and_field_defaults
            [where c = "[(''field'', PStr ''city''), (''value'', PStr ''Zurichshire'')]"
               and item = city_record, THEN conjunct1] eq
    by simp
  have w2: "check_cond city_record
              (PDict [(''field'', PStr ''city''), (''value'', PStr ''Zurichshire''), (''criteria'', PNone)]) = Inr True"
    using operator_and_field_defaults
            [where c = "[(''field'', PStr ''city''), (''value'', PStr ''Zurichshire''), (''criteria'', PNone)]"
               and item = city_record, THEN conjunct1] eq
    by simp
  have w3: "check_cond city_record
              (PDict [(''field'', PStr ''city''), (''value'', PStr ''Zurich''), (''criteria'', PStr ''LIKE'')])
            = check_cond city_record
              (PDict [(''field'', PStr ''city''), (''value'', PStr ''Zurich''), (''criteria'', PStr ''like'')])"
    using operator_and_field_defaults
            [where c = "[(''field'', PStr ''city''), (''value'', PStr ''Zurich''), (''criteria'', PStr ''like'')]"
               and item = city_record and cs = "''LIKE''", THEN conjunct2, THEN conjunct1] up
    by simp
  have w4: "matches [PDict [(''value'', PStr ''Zurich''), (''criteria'', PStr ''like'')]] city_record = Inr False"
    using operator_and_field_defaults
            [where c = "[(''value'', PStr ''Zurich''), (''criteria'', PStr ''like'')]"
               and item = city_record
               and conds = "[PDict [(''value'', PStr ''Zurich''), (''criteria'', PStr ''like'')]]",
             THEN conjunct2, THEN conjunct2] t1
    by simp
  have w5: "matches [PDict [(''field'', PNone), (''value'', PStr ''Zurich'')]] city_record = Inr False"
    using operator_and_field_defaults
            [where c = "[(''field'', PNone), (''value'', PStr ''Zurich'')]"
               and item = city_record
               and conds = "[PDict [(''field'', PNone), (''value'', PStr ''Zurich'')]]",
             THEN conjunct2, THEN conjunct2] t2
    by simp
  have w6: "matches [PDict [(''field'', PStr []), (''value'', PStr ''Zurich'')]] city_record = Inr False"
    using operator_and_field_defaults
            [where c = "[(''field'', PStr []), (''value'', PStr ''Zurich'')]"
               and item = city_record
               and conds = "[PDict [(''field'', PStr []), (''value'', PStr ''Zurich'')]]",
             THEN conjunct2, THEN conjunct2] t3
    by simp
  from w1 w2 w3 w4 w5 w6 show ?thesis by blast
qed

section \<open>Properties of the search operations\<close>

lemma request_result_cases:
  "(\<exists>v. request_result out = Inr v) \<or> (\<exists>m. request_result out = Inl (ValueError m))"
  by (cases out) (auto split: sum.splits)

lemma request_result_Inl: "request_result out = Inl e \<Longrightarrow> is_ValueError e"
  using request_result_cases [of out] by auto

lemma post_step:
  assumes "remote w \<lparr>meth = ''POST'', path = CHR ''/'' # ep, params = None, json_data = Some data\<rparr> = (out, w')"
  shows "post remote (CHR ''/'' # ep) data (w, log) =
      (request_result out,
       (w', log @ [\<lparr>meth = ''POST'', path = CHR ''/'' # ep, params = None, json_data = Some data\<rparr>]))"
  using assms by (simp add: post_def request_def)

lemma get_step:
  assumes "remote w \<lparr>meth = ''GET'', path = CHR ''/'' # ep, params = ps, json_data = None\<rparr> = (out, w')"
  shows "get remote (CHR ''/'' # ep) ps (w, log) =
      (request_result out,
       (w', log @ [\<lparr>meth = ''GET'', path = CHR ''/'' # ep, params = ps, json_data = None\<rparr>]))"
  using assms by (simp add: get_def request_def)

lemma put_step:
  assumes "remote w \<lparr>meth = ''PUT'', path = CHR ''/'' # ep, params = None, json_data = Some data\<rparr> = (out, w')"
  shows "put remote (CHR ''/'' # ep) data (w, log) =
      (request_result out,
       (w', log @ [\<lparr>meth = ''PUT'', path = CHR ''/'' # ep, params = None, json_data = Some data\<rparr>]))"
  using assms by (simp add: put_def request_def)

lemma search_tiered_run:
  fixes remote :: "'w remote"
  assumes a1: "remote w (tier1_request k criteria) = (out1, w1)"
      and a2: "remote w1 (tier2_request k criteria) = (out2, w2)"
      and a3: "remote w2 (tier3_request k limit) = (out3, w3)"
  shows "search_tiered k remote criteria limit (w, []) =
     (case request_result out1 of
        Inr found \<Rightarrow> (Inr found, (w1, [tier1_request k criteria]))
      | Inl e1 \<Rightarrow>
          (case request_result out2 of
             Inr found \<Rightarrow> (Inr found, (w2, [tier1_request k criteria, tier2_request k criteria]))
           | Inl e2 \<Rightarrow>
               (case request_result out3 of
                  Inr batch \<Rightarrow>
                    (filter_by_criteria batch criteria,
                     (w3, [tier1_request k criteria, tier2_request k criteria, tier3_request k limit]))
                | Inl e3 \<Rightarrow>
                    (Inl e3,
                     (w3, [tier1_request k criteria, tier2_request k criteria, tier3_request k limit])))))"
proof (cases k)
  case Invoice
  with a1 a2 a3 show ?thesis
    by (auto simp: search_invoices_def list_invoices_def list_params_def wrapped_def
                   tier1_request_def tier2_request_def tier3_request_def
                   post_step get_step
             split: sum.splits dest: request_result_Inl)
next
  case Quote
  with a1 a2 a3 show ?thesis
    by (auto simp: search_quotes_def list_quotes_def list_params_def wrapped_def
                   tier1_request_def tier2_request_def tier3_request_def
                   post_step get_step
             split: sum.splits dest: request_result_Inl)
next
  case Timesheet
  with a1 a2 a3 show ?thesis
    by (auto simp: search_timesheets_def list_timesheets_def list_params_def wrapped_def
                   tier1_request_def tier2_request_def tier3_request_def
                   post_step get_step
             split: sum.splits dest: request_result_Inl)
qed

text \<open>
  C1. For every criteria list and every kind among invoice, quote and timesheet, the search
  tries three tiers in order and stops at the first that returns without error: the
  criteria posted bare to the search endpoint; the same criteria posted under the key
  "criteria"; a batch fetched by the plain list operation with \<open>limit = fallback_limit\<close>
  (200 by default), of which the records the client-side filter keeps are returned. The
  result of a tier that returns is the result of the search as it is, the empty list
  included, no later request is sent, and nothing of another tier enters the result.
\<close>

theorem search_tiers_in_order:
  fixes remote :: "'w remote"
  assumes "remote w (tier1_request k criteria) = (out1, w1)"
      and "remote w1 (tier2_request k criteria) = (out2, w2)"
      and "remote w2 (tier3_request k limit) = (out3, w3)"
  shows "(request_result out1 = Inr found \<longrightarrow>
            search_tiered k remote criteria limit (w, []) =
              (Inr found, (w1, [tier1_request k criteria]))) \<and>
         (request_result out1 = Inl e1 \<and> request_result out2 = Inr found \<longrightarrow>
            search_tiered k remote criteria limit (w, []) =
              (Inr found, (w2, [tier1_request k criteria, tier2_request k criteria]))) \<and>
         (request_result out1 = Inl e1 \<and> request_result out2 = Inl e2 \<longrightarrow>
            search_tiered k remote criteria limit (w, []) =
              ((case request_result out3 of
                  Inr batch \<Rightarrow> filter_by_criteria batch criteria
                | Inl e3 \<Rightarrow> Inl e3),
               (w3, [tier1_request k criteria, tier2_request k criteria, tier3_request k limit]))) \<and>
         params (tier3_request k default_fallback_limit) = Some [(''limit'', PInt 200)]"
  using search_tiered_run [OF assms]
  by (auto simp: tier3_request_def default_fallback_limit_def split: sum.splits)

theorem search_tiers_in_order_witness:
  "search_tiered Invoice scripted [zurich_like] 200
      ([ok_json (PList []), ok_json zurich_batch, ok_json zurich_batch], []) =
     (Inr (PList []), ([ok_json zurich_batch, ok_json zurich_batch], [tier1_request Invoice [zurich_like]])) \<and>
   search_tiered Quote scripted [zurich_like] 200
      ([unprocessable, ok_json (PList []), ok_json zurich_batch], []) =
     (Inr (PList []), ([ok_json zurich_batch],
        [tier1_request Quote [zurich_like], tier2_request Quote [zurich_like]])) \<and>
   search_tiered Timesheet scripted [zurich_like] 200
      ([unprocessable, unprocessable, ok_json zurich_batch], []) =
     (Inr (PList [PDict [(''id'', PInt 1), (''city'', PStr ''Zurichshire'')],
                  PDict [(''id'', PInt 3), (''city'', PStr ''ZURICH'')]]),
      ([], [tier1_request Timesheet [zurich_like], tier2_request Timesheet [zurich_like],
            tier3_request Timesheet 200]))"
proof -
  have ok: "\<And>v. request_result (ok_json v) = Inr v"
    by (simp add: ok_json_def)
  have bad: "request_result (unprocessable) =
               Inl (ValueError ''Bexio API error - HTTP 422: Unprocessable Entity'')"
    by (simp add: unprocessable_def error_detail_def str_of_nat.simps digit_char_def)
  have flt: "filter_by_criteria zurich_batch [zurich_like] =
      Inr (PList [PDict [(''id'', PInt 1), (''city'', PStr ''Zurichshire'')],
                  PDict [(''id'', PInt 3), (''city'', PStr ''ZURICH'')]])"
    by code_simp
  have a: "search_tiered Invoice scripted [zurich_like] 200
      ([ok_json (PList []), ok_json zurich_batch, ok_json zurich_batch], []) =
     (Inr (PList []), ([ok_json zurich_batch, ok_json zurich_batch], [tier1_request Invoice [zurich_like]]))"
    using search_tiers_in_order [of scripted "[ok_json (PList []), ok_json zurich_batch, ok_json zurich_batch]"
            Invoice "[zurich_like]" "ok_json (PList [])" "[ok_json zurich_batch, ok_json zurich_batch]"
            "ok_json zurich_batch" "[ok_json zurich_batch]" 200 "ok_json zurich_batch" "[]" "PList []"]
    by (simp add: ok)
  have b: "search_tiered Quote scripted [zurich_like] 200
      ([unprocessable, ok_json (PList []), ok_json zurich_batch], []) =
     (Inr (PList []), ([ok_json zurich_batch],
        [tier1_request Quote [zurich_like], tier2_request Quote [zurich_like]]))"
    using search_tiers_in_order [of scripted "[unprocessable, ok_json (PList []), ok_json zurich_batch]"
            Quote "[zurich_like]" "unprocessable" "[ok_json (PList []), ok_json zurich_batch]"
            "ok_json (PList [])" "[ok_json zurich_batch]" 200 "ok_json zurich_batch" "[]" "PList []"
            "ValueError ''Bexio API error - HTTP 422: Unprocessable Entity''"]
    by (simp add: ok bad)
  have c: "search_tiered Timesheet scripted [zurich_like] 200
      ([unprocessable, unprocessable, ok_json zurich_batch], []) =
     (Inr (PList [PDict [(''id'', PInt 1), (''city'', PStr ''Zurichshire'')],
                  PDict [(''id'', PInt 3), (''city'', PStr ''ZURICH'')]]),
      ([], [tier1_request Timesheet [zurich_like], tier2_request Timesheet [zurich_like],
            tier3_request Timesheet 200]))"
    using search_tiers_in_order [of scripted "[unprocessable, unprocessable, ok_json zurich_batch]"
            Timesheet "[zurich_like]" "unprocessable" "[unprocessable, ok_json zurich_batch]"
            "unprocessable" "[ok_json zurich_batch]" 200 "ok_json zurich_batch" "[]" "PList []"
            "ValueError ''Bexio API error - HTTP 422: Unprocessable Entity''" "ValueError ''Bexio API error - HTTP 422: Unprocessable Entity''"]
    by (simp add: ok bad flt)
  show ?thesis using a b c by simp
qed


lemma tier_requests_differ:
  "tier2_request k criteria \<noteq> tier1_request k criteria"
  "tier2_request k criteria \<noteq> tier3_request k limit"
  by (simp_all add: tier1_request_def tier2_request_def tier3_request_def)

lemma request_result_failed:
  "(\<exists>e. request_result out = Inl e) =
     (case out of Fault m \<Rightarrow> True
                | Reply r \<Rightarrow> status_code r < 200 \<or> 299 < status_code r \<or> isl (body_json r))"
  by (cases out) (auto split: sum.splits)

text \<open>
  C5, as the code has it. In the cascade the second tier, the same endpoint with the
  criteria under the key "criteria", is attempted exactly when the first tier fails, whatever
  the failure: a fault of the connection, a reply with a status outside 200..299 (a
  validation error or any other), or a reply whose body does not decode. The transport
  turns all of them into the one exception the cascade catches.
\<close>

theorem tier2_on_any_failure:
  fixes remote :: "'w remote"
  assumes "remote w (tier1_request k criteria) = (out1, w1)"
  shows "(tier2_request k criteria \<in> set (snd (snd (search_tiered k remote criteria limit (w, []))))) =
         (case out1 of
            Fault m \<Rightarrow> True
          | Reply r \<Rightarrow> status_code r < 200 \<or> 299 < status_code r \<or> isl (body_json r))"
proof -
  obtain out2 w2 where a2: "remote w1 (tier2_request k criteria) = (out2, w2)"
    by (cases "remote w1 (tier2_request k criteria)")
  obtain out3 w3 where a3: "remote w2 (tier3_request k limit) = (out3, w3)"
    by (cases "remote w2 (tier3_request k limit)")
  have "(tier2_request k criteria \<in> set (snd (snd (search_tiered k remote criteria limit (w, []))))) =
        (\<exists>e. request_result out1 = Inl e)"
    by (simp add: search_tiered_run [OF assms a2 a3] tier_requests_differ split: sum.splits)
  then show ?thesis
    by (simp add: request_result_failed)
qed

theorem tier2_on_any_failure_witness:
  "tier2_request Invoice [zurich_like]
     \<in> set (snd (snd (search_tiered Invoice scripted [zurich_like] 200
                        ([Fault ''connection timed out'', ok_json (PList [])], [])))) \<and>
   tier2_request Invoice [zurich_like]
     \<in> set (snd (snd (search_tiered Invoice scripted [zurich_like] 200
                        ([server_error, ok_json (PList [])], [])))) \<and>
   tier2_request Invoice [zurich_like]
     \<notin> set (snd (snd (search_tiered Invoice scripted [zurich_like] 200
                        ([ok_json (PList []), ok_json (PList [])], []))))"
  using tier2_on_any_failure [of scripted "[Fault ''connection timed out'', ok_json (PList [])]" Invoice
          "[zurich_like]" "Fault ''connection timed out''" "[ok_json (PList [])]" 200]
        tier2_on_any_failure [of scripted "[server_error, ok_json (PList [])]" Invoice
          "[zurich_like]" "server_error" "[ok_json (PList [])]" 200]
        tier2_on_any_failure [of scripted "[ok_json (PList []), ok_json (PList [])]" Invoice
          "[zurich_like]" "ok_json (PList [])" "[ok_json (PList [])]" 200]
  by (simp add: ok_json_def server_error_def)

text \<open>
  The claim as it was stated, that a fault of the connection at the first tier is not
  retried with the wrapped payload, fails: after a connection timeout the wrapped request
  is sent, and its result is returned.
\<close>

theorem network_fault_retried_counterexample:
  "request_result (Fault ''connection timed out'') =
     Inl (ValueError ''Request failed: connection timed out'') \<and>
   search_tiered Invoice scripted [zurich_like] 200
       ([Fault ''connection timed out'', ok_json (PList [])], []) =
     (Inr (PList []), ([], [tier1_request Invoice [zurich_like], tier2_request Invoice [zurich_like]]))"
proof -
  have "search_tiered Invoice scripted [zurich_like] 200
       ([Fault ''connection timed out'', ok_json (PList [])], []) =
     (Inr (PList []), ([], [tier1_request Invoice [zurich_like], tier2_request Invoice [zurich_like]]))"
    using search_tiered_run [of scripted "[Fault ''connection timed out'', ok_json (PList [])]" Invoice
            "[zurich_like]" "Fault ''connection timed out''" "[ok_json (PList [])]"
            "ok_json (PList [])" "[]" 200 "Fault ''connection refused''" "[]"]
    by (simp add: ok_json_def)
  then show ?thesis by simp
qed

lemma search_plain_run:
  fixes remote :: "'w remote"
  assumes "remote w \<lparr>meth = ''POST'', path = plain_search_path k, params = None,
                      json_data = Some (plain_search_body k criteria)\<rparr> = (out, w')"
  shows "search_plain k remote criteria (w, log) =
           (request_result out,
            (w', log @ [\<lparr>meth = ''POST'', path = plain_search_path k, params = None,
                    json_data = Some (plain_search_body k criteria)\<rparr>]))"
  using assms
  by (cases k)
     (simp_all add: search_contacts_def search_orders_def search_projects_def search_items_def
        search_accounts_def search_calendar_years_def search_client_services_def
        search_business_activities_def post_step)

text \<open>
  C6, as the code has it. Every search operation of a kind other than invoice, quote and
  timesheet sends exactly one request, a POST to the search endpoint of the kind, and
  returns or raises what that request gives: there is no fallback. Orders, projects and
  items send the criteria under the key "criteria"; contacts, accounts, calendar years,
  client services and business activities send the criteria list bare.
\<close>

theorem plain_search_single_request:
  fixes remote :: "'w remote"
  assumes "remote w \<lparr>meth = ''POST'', path = plain_search_path k, params = None,
                      json_data = Some (plain_search_body k criteria)\<rparr> = (out, w')"
  shows "search_plain k remote criteria (w, []) =
           (request_result out,
            (w', [\<lparr>meth = ''POST'', path = plain_search_path k, params = None,
                    json_data = Some (plain_search_body k criteria)\<rparr>])) \<and>
         (k \<in> {Order, Project, Item} \<longrightarrow>
            plain_search_body k criteria = PDict [(''criteria'', PList criteria)]) \<and>
         (k \<notin> {Order, Project, Item} \<longrightarrow> plain_search_body k criteria = PList criteria)"
  using assms search_plain_run [of remote w k criteria out w' "[]"]
  by (cases k) (simp_all add: wrapped_def)

theorem plain_search_single_request_witness:
  "search_plain Project scripted [zurich_like] ([unprocessable, ok_json zurich_batch], []) =
     (Inl (ValueError ''Bexio API error - HTTP 422: Unprocessable Entity''),
      ([ok_json zurich_batch],
       [\<lparr>meth = ''POST'', path = ''/2.0/pr_project/search'', params = None,
         json_data = Some (PDict [(''criteria'', PList [zurich_like])])\<rparr>])) \<and>
   search_plain Account scripted [zurich_like] ([ok_json (PList []), ok_json zurich_batch], []) =
     (Inr (PList []),
      ([ok_json zurich_batch],
       [\<lparr>meth = ''POST'', path = ''/2.0/accounts/search'', params = None,
         json_data = Some (PList [zurich_like])\<rparr>]))"
proof -
  have bad: "request_result (unprocessable) =
               Inl (ValueError ''Bexio API error - HTTP 422: Unprocessable Entity'')"
    by (simp add: unprocessable_def error_detail_def str_of_nat.simps digit_char_def)
  have ok: "request_result (ok_json (PList [])) = Inr (PList [])"
    by (simp add: ok_json_def)
  have h1: "scripted [unprocessable, ok_json zurich_batch]
              \<lparr>meth = ''POST'', path = plain_search_path Project, params = None,
                json_data = Some (plain_search_body Project [zurich_like])\<rparr>
            = (unprocessable, [ok_json zurich_batch])"
    by simp
  have h2: "scripted [ok_json (PList []), ok_json zurich_batch]
              \<lparr>meth = ''POST'', path = plain_search_path Account, params = None,
                json_data = Some (plain_search_body Account [zurich_like])\<rparr>
            = (ok_json (PList []), [ok_json zurich_batch])"
    by simp
  have a: "search_plain Project scripted [zurich_like] ([unprocessable, ok_json zurich_batch], []) =
     (Inl (ValueError ''Bexio API error - HTTP 422: Unprocessable Entity''),
      ([ok_json zurich_batch],
       [\<lparr>meth = ''POST'', path = ''/2.0/pr_project/search'', params = None,
         json_data = Some (PDict [(''criteria'', PList [zurich_like])])\<rparr>]))"
    using plain_search_single_request [of scripted "[unprocessable, ok_json zurich_batch]" Project
            "[zurich_like]" "unprocessable" "[ok_json zurich_batch]", OF h1, THEN conjunct1]
    by (simp only: bad plain_search_path.simps plain_search_body.simps wrapped_def)
  have b: "search_plain Account scripted [zurich_like] ([ok_json (PList []), ok_json zurich_batch], []) =
     (Inr (PList []),
      ([ok_json zurich_batch],
       [\<lparr>meth = ''POST'', path = ''/2.0/accounts/search'', params = None,
         json_data = Some (PList [zurich_like])\<rparr>]))"
    using plain_search_single_request [of scripted "[ok_json (PList []), ok_json zurich_batch]" Account
            "[zurich_like]" "ok_json (PList [])" "[ok_json zurich_batch]", OF h2, THEN conjunct1]
    by (simp only: ok plain_search_path.simps plain_search_body.simps)
  from a b show ?thesis ..
qed

text \<open>
  The claim as it was stated, that all of these kinds wrap their conditions, fails for
  the contact search: the body of its request is the criteria list itself.
\<close>

theorem contacts_posted_bare_counterexample:
  "search_plain Contact scripted [zurich_like] ([ok_json (PList [])], []) =
     (Inr (PList []),
      ([], [\<lparr>meth = ''POST'', path = ''/2.0/contact/search'', params = None,
             json_data = Some (PList [zurich_like])\<rparr>])) \<and>
   PList [zurich_like] \<noteq> PDict [(''criteria'', PList [zurich_like])]"
proof -
  have ok: "request_result (ok_json (PList [])) = Inr (PList [])"
    by (simp add: ok_json_def)
  have h: "scripted [ok_json (PList [])]
              \<lparr>meth = ''POST'', path = plain_search_path Contact, params = None,
                json_data = Some (plain_search_body Contact [zurich_like])\<rparr>
            = (ok_json (PList []), [])"
    by simp
  have "search_plain Contact scripted [zurich_like] ([ok_json (PList [])], []) =
     (Inr (PList []),
      ([], [\<lparr>meth = ''POST'', path = ''/2.0/contact/search'', params = None,
             json_data = Some (PList [zurich_like])\<rparr>]))"
    using search_plain_run [of scripted "[ok_json (PList [])]" Contact "[zurich_like]"
            "ok_json (PList [])" "[]" "[]", OF h]
    by (simp only: ok plain_search_path.simps plain_search_body.simps append_Nil)
  then show ?thesis by simp
qed


section \<open>Properties of the transport and of the error path\<close>

lemma request_fst:
  "fst (request remote m ep ps body s) =
     request_result (fst (remote (fst s)
        \<lparr>meth = m, path = (if starts_with ep ''/'' then ep else ''/'' @ ep), params = ps, json_data = body\<rparr>))"
  by (simp add: request_def Let_def)

lemma error_detail_dict:
  assumes "body_json r = Inr (PDict error_data)"
  shows "error_detail r =
     ''HTTP '' @ str_of_nat (status_code r) @
     (let message = py_or (py_or (dict_get error_data ''message'') (dict_get error_data ''error''))
                          (dict_get error_data ''detail'')
      in if truthy message then '': '' @ py_str message else []) @
     (let field_errors = dict_get error_data ''errors''
      in if truthy field_errors then '' | errors: '' @ py_str field_errors else [])"
  using assms by (simp add: error_detail_def Let_def)

lemma error_detail_prefix:
  "\<exists>rest. error_detail r = ''HTTP '' @ str_of_nat (status_code r) @ rest"
proof (cases "body_json r")
  case (Inl m)
  then show ?thesis by (simp add: error_detail_def)
next
  case (Inr v)
  then show ?thesis
    by (cases v) (simp_all add: error_detail_def Let_def)
qed

text \<open>
  C9. Every failure inside \<^verbatim>\<open>_request\<close> is raised as a \<^verbatim>\<open>ValueError\<close>, whatever the
  remote side does. A reply with a status outside 200..299 gives a message that starts
  with "Bexio API error - HTTP" and the status; when its body decodes to a JSON object, the
  message goes on with the remote message (the first truthy of "message", "error", "detail")
  and with the field errors under "errors", each when present. A fault of the connection,
  or a success reply whose body does not decode, gives a message that starts with
  "Request failed:".
\<close>

theorem request_raises_value_error_only:
  "(case fst (request remote m ep ps body s) of Inr v \<Rightarrow> True | Inl e \<Rightarrow> is_ValueError e) \<and>
   (status_code r < 200 \<or> 299 < status_code r \<longrightarrow>
      (\<exists>rest. request_result (Reply r) =
          Inl (ValueError (''Bexio API error - HTTP '' @ str_of_nat (status_code r) @ rest)))) \<and>
   ((status_code r < 200 \<or> 299 < status_code r) \<and> body_json r = Inr (PDict error_data) \<longrightarrow>
      request_result (Reply r) =
        Inl (ValueError (''Bexio API error - HTTP '' @ str_of_nat (status_code r) @
          (let message = py_or (py_or (dict_get error_data ''message'') (dict_get error_data ''error''))
                               (dict_get error_data ''detail'')
           in if truthy message then '': '' @ py_str message else []) @
          (let field_errors = dict_get error_data ''errors''
           in if truthy field_errors then '' | errors: '' @ py_str field_errors else [])))) \<and>
   request_result (Fault fault) = Inl (ValueError (''Request failed: '' @ fault)) \<and>
   (200 \<le> status_code r \<and> status_code r \<le> 299 \<and> body_json r = Inl decode_error \<longrightarrow>
      request_result (Reply r) = Inl (ValueError (''Request failed: '' @ decode_error)))"
proof -
  have 1: "case fst (request remote m ep ps body s) of Inr v \<Rightarrow> True | Inl e \<Rightarrow> is_ValueError e"
    unfolding request_fst
    by (auto split: sum.splits dest: request_result_Inl)
  have 2: "\<exists>rest. request_result (Reply r) =
          Inl (ValueError (''Bexio API error - HTTP '' @ str_of_nat (status_code r) @ rest))"
    if "status_code r < 200 \<or> 299 < status_code r"
    using that error_detail_prefix [of r] by auto
  have 3: "request_result (Reply r) =
        Inl (ValueError (''Bexio API error - HTTP '' @ str_of_nat (status_code r) @
          (let message = py_or (py_or (dict_get error_data ''message'') (dict_get error_data ''error''))
                               (dict_get error_data ''detail'')
           in if truthy message then '': '' @ py_str message else []) @
          (let field_errors = dict_get error_data ''errors''
           in if truthy field_errors then '' | errors: '' @ py_str field_errors else [])))"
    if "status_code r < 200 \<or> 299 < status_code r" and "body_json r = Inr (PDict error_data)"
    using that by (auto simp: error_detail_dict)
  from 1 2 3 show ?thesis by simp
qed

theorem request_raises_value_error_only_witness:
  "fst (request scripted ''POST'' ''2.0/contact'' None (Some (PDict [])) ([Reply validation_response], [])) =
     Inl (ValueError (''Bexio API error - HTTP 422: Validation failed | errors: ['' @ [CHR 0x27]
                        @ ''field not set'' @ [CHR 0x27] @ '']'')) \<and>
   request_result (Fault ''All connection attempts failed'') =
     Inl (ValueError ''Request failed: All connection attempts failed'') \<and>
   request_result (Reply no_content_response) =
     Inl (ValueError ''Request failed: Expecting value: line 1 column 1 (char 0)'')"
proof -
  let ?ed = "[(''error_code'', PInt 422), (''message'', PStr ''Validation failed''),
              (''errors'', PList [PStr ''field not set''])]"
  note inst = request_raises_value_error_only
               [where r = validation_response and error_data = ?ed
                  and remote = scripted and m = "''POST''" and ep = "''2.0/contact''" and ps = None
                  and body = "Some (PDict [])" and s = "([Reply validation_response], [])"
                  and fault = "''All connection attempts failed''"]
  have hyp: "(status_code validation_response < 200 \<or> 299 < status_code validation_response) \<and>
             body_json validation_response = Inr (PDict ?ed)"
    by (simp add: validation_response_def)
  have ev: "''Bexio API error - HTTP '' @ str_of_nat (status_code validation_response) @
          (let message = py_or (py_or (dict_get ?ed ''message'') (dict_get ?ed ''error''))
                               (dict_get ?ed ''detail'')
           in if truthy message then '': '' @ py_str message else []) @
          (let field_errors = dict_get ?ed ''errors''
           in if truthy field_errors then '' | errors: '' @ py_str field_errors else [])
        = ''Bexio API error - HTTP 422: Validation failed | errors: ['' @ [CHR 0x27]
                        @ ''field not set'' @ [CHR 0x27] @ '']''"
    by code_simp
  have a: "request_result (Reply validation_response) =
     Inl (ValueError (''Bexio API error - HTTP 422: Validation failed | errors: ['' @ [CHR 0x27]
                        @ ''field not set'' @ [CHR 0x27] @ '']''))"
    using inst [THEN conjunct2, THEN conjunct2, THEN conjunct1, rule_format, OF hyp]
    by (simp only: ev)
  have e: "fst (request scripted ''POST'' ''2.0/contact'' None (Some (PDict [])) ([Reply validation_response], []))
             = request_result (Reply validation_response)"
    by (simp add: request_def)
  have c: "request_result (Fault ''All connection attempts failed'') =
     Inl (ValueError ''Request failed: All connection attempts failed'')"
    using inst [THEN conjunct2, THEN conjunct2, THEN conjunct2, THEN conjunct1]
    by (simp only: append.simps)
  have hyp_d: "200 \<le> status_code no_content_response \<and> status_code no_content_response \<le> 299 \<and>
               body_json no_content_response = Inl ''Expecting value: line 1 column 1 (char 0)''"
    by (simp add: no_content_response_def)
  have d: "request_result (Reply no_content_response) =
     Inl (ValueError ''Request failed: Expecting value: line 1 column 1 (char 0)'')"
    using request_raises_value_error_only
            [where r = no_content_response
               and decode_error = "''Expecting value: line 1 column 1 (char 0)''",
             THEN conjunct2, THEN conjunct2, THEN conjunct2, THEN conjunct2, rule_format, OF hyp_d]
    by (simp only: append.simps)
  from a c d e show ?thesis by (simp only: simp_thms)
qed

lemma http_422_in_text:
  assumes "status_code r = 422" and "request_result (Reply r) = Inl e"
  shows "sublist ''422'' (error_text e)"
proof -
  from error_detail_prefix [of r] obtain rest
    where "error_detail r = ''HTTP '' @ str_of_nat (status_code r) @ rest" ..
  with assms have "error_text e = ''Bexio API error - HTTP '' @ ''422'' @ rest"
    by (auto simp: str_of_nat.simps digit_char_def)
  then show ?thesis
    by (simp only: sublist_appendI)
qed

lemma call_tool_except_guard:
  "(str_contains ''422'' msg \<or> str_contains ''HTTP 422'' msg) = sublist ''422'' msg"
proof -
  have "sublist ''422'' ''HTTP 422''"
    by (rule sublist_append_leftI [of "''422''" "''HTTP ''", simplified])
  then have "sublist ''HTTP 422'' msg \<Longrightarrow> sublist ''422'' msg"
    by (rule sublist_order.order_trans)
  then show ?thesis
    by (auto simp: str_contains_sublist)
qed

lemma call_tool_except_cases:
  "(sublist ''422'' (error_text e) \<longrightarrow>
      call_tool_except (Some create_helpful_error_message) e = create_helpful_error_message (error_text e)) \<and>
   (\<not> sublist ''422'' (error_text e) \<longrightarrow>
      call_tool_except field_validator e = ''Error: '' @ error_text e) \<and>
   call_tool_except None e = ''Error: '' @ error_text e \<and>
   (status_code r = 422 \<and> request_result (Reply r) = Inl e' \<longrightarrow> sublist ''422'' (error_text e'))"
  using call_tool_except_guard [of "error_text e"] http_422_in_text [of r e']
  by (auto simp: call_tool_except_def Let_def split: option.splits)

text \<open>
  C7. The claim is that the error enhancer is invoked exactly for an error with HTTP status
  422 and that every other error is passed through. The dispatcher says as much of itself
  (its branch is headed "Enhanced 422 error handling"), but its test is on the text of the
  error, for the digits 422, and not on the status. Here the code is run where the two part:
  a reply with status 404 whose message is "Invoice 422 not found". The transport raises the
  error of a 404, and the dispatcher hands its text to the enhancer instead of passing it
  through.
\<close>

theorem enhancer_invoked_on_404:
  "status_code not_found_response = 404 \<and>
   request_result (Reply not_found_response) =
     Inl (ValueError ''Bexio API error - HTTP 404: Invoice 422 not found'') \<and>
   call_tool_except (Some sample_enhancer) (ValueError ''Bexio API error - HTTP 404: Invoice 422 not found'') =
     sample_enhancer ''Bexio API error - HTTP 404: Invoice 422 not found''"
  by code_simp

section \<open>Properties of the update operations\<close>

lemma map_of_dict_merge:
  assumes "distinct (map fst b)"
  shows "map_of (dict_merge a b) k = (case map_of b k of Some v \<Rightarrow> Some v | None \<Rightarrow> map_of a k)"
  using assms unfolding dict_merge_def
proof (induction b arbitrary: a)
  case Nil
  show ?case by simp
next
  case (Cons kv b)
  obtain k' v' where kv: "kv = (k', v')" by (cases kv)
  from Cons.prems kv have nk: "map_of b k' = None"
    by (simp add: map_of_eq_None_iff)
  from Cons.prems have "distinct (map fst b)" by simp
  from Cons.IH [OF this, of "AList.update k' v' a"] nk
  show ?case
    by (auto simp: kv update_conv' split: option.splits)
qed

lemma distinct_normalize_contact:
  "distinct (map fst d) \<Longrightarrow> distinct (map fst (normalize_contact d))"
  by (simp add: normalize_contact_def distinct_update distinct_delete)

lemma update_contact_fetched:
  fixes remote :: "'w remote"
  assumes "remote w (contact_get_request contact_id) = (out1, w1)"
      and "request_result out1 = Inr (PDict existing)"
      and "remote w1 (contact_put_request contact_id (dict_merge existing (normalize_contact contact_data)))
             = (out2, w2)"
      and "request_result out2 = Inr done"
  shows "update_contact remote contact_id contact_data (w, []) =
           (Inr done, (w2, [contact_get_request contact_id,
              contact_put_request contact_id (dict_merge existing (normalize_contact contact_data))]))"
  using assms
  by (simp add: update_contact_def get_contact_def contact_get_request_def contact_put_request_def
                get_step put_step Let_def)

lemma update_contact_fetch_failed:
  fixes remote :: "'w remote"
  assumes "remote w (contact_get_request contact_id) = (out1, w1)"
      and "request_result out1 = Inl e"
      and "remote w1 (contact_put_request contact_id (normalize_contact contact_data)) = (out3, w3)"
  shows "update_contact remote contact_id contact_data (w, []) =
           (request_result out3, (w3, [contact_get_request contact_id,
              contact_put_request contact_id (normalize_contact contact_data)]))"
  using assms
  by (simp add: update_contact_def get_contact_def contact_get_request_def contact_put_request_def
                get_step put_step Let_def)

text \<open>
  C4, as the code has it. For the contact update, with the caller's payload after the
  alias "email" has been renamed to "mail" (the payload itself when it has no "email", or
  has a "mail"): the current record is fetched by id, and the record that is put has, for
  every field, the caller's value when the caller supplies the field and the value of the
  fetched record otherwise; when that put succeeds its result is returned. If the fetch
  fails, the update is submitted with the caller's fields alone, and what that request
  gives, a rejection by the remote side included, is what the caller gets.
\<close>

theorem update_contact_fills_from_existing:
  fixes remote :: "'w remote"
  assumes "distinct (map fst contact_data)"
      and "remote w (contact_get_request contact_id) = (out1, w1)"
  shows
   "(request_result out1 = Inr (PDict existing) \<and>
     remote w1 (contact_put_request contact_id (dict_merge existing (normalize_contact contact_data)))
       = (out2, w2) \<and>
     request_result out2 = Inr done \<longrightarrow>
       update_contact remote contact_id contact_data (w, []) =
         (Inr done, (w2, [contact_get_request contact_id,
            contact_put_request contact_id (dict_merge existing (normalize_contact contact_data))]))) \<and>
    map_of (dict_merge existing (normalize_contact contact_data)) k =
      (case map_of (normalize_contact contact_data) k of
         Some v \<Rightarrow> Some v
       | None \<Rightarrow> map_of existing k) \<and>
    (\<not> dict_has contact_data ''email'' \<or> dict_has contact_data ''mail'' \<longrightarrow>
       normalize_contact contact_data = contact_data) \<and>
    (request_result out1 = Inl e \<and>
     remote w1 (contact_put_request contact_id (normalize_contact contact_data)) = (out3, w3) \<longrightarrow>
       update_contact remote contact_id contact_data (w, []) =
         (request_result out3, (w3, [contact_get_request contact_id,
            contact_put_request contact_id (normalize_contact contact_data)])))"
proof -
  have m: "map_of (dict_merge existing (normalize_contact contact_data)) k =
      (case map_of (normalize_contact contact_data) k of
         Some v \<Rightarrow> Some v
       | None \<Rightarrow> map_of existing k)"
    using assms(1) by (simp add: map_of_dict_merge distinct_normalize_contact)
  have n: "\<not> dict_has contact_data ''email'' \<or> dict_has contact_data ''mail'' \<longrightarrow>
       normalize_contact contact_data = contact_data"
    by (auto simp: normalize_contact_def)
  from m n assms(2)
       update_contact_fetched [of remote w contact_id out1 w1 existing contact_data out2 w2 "done"]
       update_contact_fetch_failed [of remote w contact_id out1 w1 e contact_data out3 w3]
  show ?thesis by blast
qed

theorem update_contact_fills_from_existing_witness:
  "update_contact scripted 7 [(''name_1'', PStr ''Muster GmbH'')]
      ([ok_json (PDict existing_contact), ok_json (PDict updated_contact)], []) =
     (Inr (PDict updated_contact),
      ([], [contact_get_request 7, contact_put_request 7 updated_contact])) \<and>
   update_contact scripted 7 [(''name_1'', PStr ''Muster GmbH'')]
      ([Fault ''All connection attempts failed'', unprocessable], []) =
     (Inl (ValueError ''Bexio API error - HTTP 422: Unprocessable Entity''),
      ([], [contact_get_request 7, contact_put_request 7 [(''name_1'', PStr ''Muster GmbH'')]]))"
proof -
  let ?cd = "[(''name_1'', PStr ''Muster GmbH'')]"
  have keys: "distinct (map fst ?cd)" by simp
  have norm: "normalize_contact ?cd = ?cd"
    by (simp add: normalize_contact_def dict_has_def)
  have merged: "dict_merge existing_contact ?cd = updated_contact"
    by (simp add: dict_merge_def existing_contact_def updated_contact_def)
  have ok: "\<And>v. request_result (ok_json v) = Inr v"
    by (simp add: ok_json_def)
  have bad: "request_result unprocessable =
               Inl (ValueError ''Bexio API error - HTTP 422: Unprocessable Entity'')"
    by (simp add: unprocessable_def error_detail_def str_of_nat.simps digit_char_def)
  have f1: "scripted [ok_json (PDict existing_contact), ok_json (PDict updated_contact)]
              (contact_get_request 7) = (ok_json (PDict existing_contact), [ok_json (PDict updated_contact)])"
    by simp
  have f2: "scripted [Fault ''All connection attempts failed'', unprocessable]
              (contact_get_request 7) = (Fault ''All connection attempts failed'', [unprocessable])"
    by simp
  have h1: "request_result (ok_json (PDict existing_contact)) = Inr (PDict existing_contact) \<and>
            scripted [ok_json (PDict updated_contact)]
              (contact_put_request 7 (dict_merge existing_contact (normalize_contact ?cd)))
              = (ok_json (PDict updated_contact), []) \<and>
            request_result (ok_json (PDict updated_contact)) = Inr (PDict updated_contact)"
    by (simp add: ok)
  have h2: "request_result (Fault ''All connection attempts failed'') =
              Inl (ValueError ''Request failed: All connection attempts failed'') \<and>
            scripted [unprocessable] (contact_put_request 7 (normalize_contact ?cd)) = (unprocessable, [])"
    by simp
  have a: "update_contact scripted 7 ?cd
      ([ok_json (PDict existing_contact), ok_json (PDict updated_contact)], []) =
     (Inr (PDict updated_contact),
      ([], [contact_get_request 7, contact_put_request 7 updated_contact]))"
    using update_contact_fills_from_existing
            [of ?cd scripted "[ok_json (PDict existing_contact), ok_json (PDict updated_contact)]" 7
                "ok_json (PDict existing_contact)" "[ok_json (PDict updated_contact)]"
                existing_contact "ok_json (PDict updated_contact)" "[]" "PDict updated_contact",
             OF keys f1, THEN conjunct1, rule_format, OF h1]
    by (simp only: norm merged)
  have b: "update_contact scripted 7 ?cd
      ([Fault ''All connection attempts failed'', unprocessable], []) =
     (Inl (ValueError ''Bexio API error - HTTP 422: Unprocessable Entity''),
      ([], [contact_get_request 7, contact_put_request 7 ?cd]))"
    using update_contact_fills_from_existing
            [where contact_data = ?cd and remote = scripted
               and w = "[Fault ''All connection attempts failed'', unprocessable]" and contact_id = 7
               and ?out1.0 = "Fault ''All connection attempts failed''" and ?w1.0 = "[unprocessable]"
               and e = "ValueError ''Request failed: All connection attempts failed''"
               and ?out3.0 = unprocessable and ?w3.0 = "[]",
             OF keys f2, THEN conjunct2, THEN conjunct2, THEN conjunct2, rule_format, OF h2]
    by (simp only: norm bad)
  from a b show ?thesis ..
qed

text \<open>
  The claim as it was stated, for every update operation and every field the caller
  supplies, fails: the invoice update sends one PUT with the caller's fields and fetches
  nothing, so a field the caller left out stays out; and in the contact update a caller's
  "email" is sent as "mail", so an "email" of the fetched record is not overridden.
\<close>

theorem update_without_fetch_counterexample:
  "update_invoice scripted 7 [(''title'', PStr ''May'')]
      ([ok_json (PDict [(''id'', PInt 7), (''title'', PStr ''May'')])], []) =
     (Inr (PDict [(''id'', PInt 7), (''title'', PStr ''May'')]),
      ([], [\<lparr>meth = ''PUT'', path = ''/2.0/kb_invoice/7'', params = None,
             json_data = Some (PDict [(''title'', PStr ''May'')])\<rparr>])) \<and>
   update_contact scripted 7 [(''email'', PStr ''new@muster.example'')]
      ([ok_json (PDict [(''id'', PInt 7), (''email'', PStr ''old@muster.example'')]), ok_json (PDict [])], []) =
     (Inr (PDict []),
      ([], [contact_get_request 7,
            contact_put_request 7 [(''id'', PInt 7), (''email'', PStr ''old@muster.example''),
                                   (''mail'', PStr ''new@muster.example'')]]))"
  by code_simp


section \<open>Properties of the static defaults\<close>

lemma map_of_apply_static:
  "map_of (apply_static payload rule) k =
     (case map_of payload k of Some v \<Rightarrow> Some v
      | None \<Rightarrow> if k = fst rule then Some (snd rule) else None)"
  by (cases rule) (auto simp: apply_static_def dict_has_def map_add_def split: option.splits)

lemma map_of_complete_create:
  "map_of (complete_create rules payload) k =
     (case map_of payload k of Some v \<Rightarrow> Some v | None \<Rightarrow> map_of rules k)"
  unfolding complete_create_def
proof (induction rules arbitrary: payload)
  case Nil
  show ?case by (simp split: option.splits)
next
  case (Cons rule rules)
  show ?case
    by (cases rule) (simp add: Cons.IH map_of_apply_static split: option.splits)
qed

lemma complete_create_extends:
  "\<exists>added. complete_create rules payload = payload @ added \<and> set added \<subseteq> set rules"
  unfolding complete_create_def
proof (induction rules arbitrary: payload)
  case Nil
  show ?case by simp
next
  case (Cons rule rules)
  from Cons.IH [of "apply_static payload rule"] obtain added
    where a: "foldl apply_static (apply_static payload rule) rules = apply_static payload rule @ added"
      and b: "set added \<subseteq> set rules" by blast
  show ?case
  proof (cases "dict_has payload (fst rule)")
    case True
    then have "apply_static payload rule = payload"
      by (simp add: apply_static_def)
    with a b show ?thesis by auto
  next
    case False
    then have "apply_static payload rule = payload @ [rule]"
      by (simp add: apply_static_def)
    with a b have "foldl apply_static payload (rule # rules) = payload @ (rule # added) \<and>
                   set (rule # added) \<subseteq> set (rule # rules)"
      by auto
    then show ?thesis by blast
  qed
qed

text \<open>
  C3. For a create on a kind with STATIC defaults, a field of a rule that the payload omits
  is in the completed payload with its declared default, and a field that the payload
  supplies keeps the caller's value, whatever that value is (0, false and the empty string
  included); the completed payload is the caller's payload followed by added defaults. In
  particular a contact payload with only \<open>name_1\<close> set is completed with
  \<open>contact_type_id = 2\<close>, \<open>user_id = 1\<close> and \<open>owner_id = 1\<close>, and \<open>name_1\<close> is unchanged.
\<close>

theorem static_defaults_fill_only_absent:
  "(distinct (map fst rules) \<and> (f, d) \<in> set rules \<and> \<not> dict_has payload f \<longrightarrow>
      dict_has (complete_create rules payload) f \<and> dict_get (complete_create rules payload) f = d) \<and>
   (dict_has payload f \<longrightarrow>
      dict_get (complete_create rules payload) f = dict_get payload f) \<and>
   (\<exists>added. complete_create rules payload = payload @ added \<and> set added \<subseteq> set rules) \<and>
   complete_create contact_rules [(''name_1'', name)] =
     [(''name_1'', name), (''contact_type_id'', PInt 2), (''user_id'', PInt 1), (''owner_id'', PInt 1)]"
proof -
  have 1: "dict_has (complete_create rules payload) f \<and> dict_get (complete_create rules payload) f = d"
    if "distinct (map fst rules)" "(f, d) \<in> set rules" "\<not> dict_has payload f"
  proof -
    from that have "map_of rules f = Some d" by simp
    with that(3) show ?thesis
      by (simp add: dict_has_def dict_get_def map_of_complete_create)
  qed
  have 2: "dict_get (complete_create rules payload) f = dict_get payload f" if "dict_has payload f"
    using that by (auto simp: dict_has_def dict_get_def map_of_complete_create)
  have 3: "complete_create contact_rules [(''name_1'', name)] =
     [(''name_1'', name), (''contact_type_id'', PInt 2), (''user_id'', PInt 1), (''owner_id'', PInt 1)]"
    by (simp add: complete_create_def contact_rules_def apply_static_def dict_has_def)
  from 1 2 3 complete_create_extends [of rules payload] show ?thesis by blast
qed

theorem static_defaults_fill_only_absent_witness:
  "complete_create item_rules [(''intern_name'', PStr ''Widget''), (''is_stock'', PBool False), (''delivery_price'', PInt 0)] =
     [(''intern_name'', PStr ''Widget''), (''is_stock'', PBool False), (''delivery_price'', PInt 0),
      (''currency_id'', PInt 1)] \<and>
   dict_get (complete_create item_rules [(''intern_name'', PStr ''''), (''currency_id'', PInt 0)]) ''currency_id'' = PInt 0 \<and>
   dict_get (complete_create item_rules [(''intern_name'', PStr ''''), (''currency_id'', PInt 0)]) ''intern_name'' = PStr '''' \<and>
   dict_get (complete_create item_rules [(''intern_name'', PStr ''''), (''currency_id'', PInt 0)]) ''is_stock'' = PBool False \<and>
   complete_create contact_rules [(''name_1'', PStr ''Muster AG'')] =
     [(''name_1'', PStr ''Muster AG''), (''contact_type_id'', PInt 2), (''user_id'', PInt 1), (''owner_id'', PInt 1)]"
proof -
  let ?p = "[(''intern_name'', PStr ''''), (''currency_id'', PInt 0)]"
  have dist: "distinct (map fst item_rules)"
    by (simp add: item_rules_def)
  have h1: "distinct (map fst item_rules) \<and> (''is_stock'', PBool False) \<in> set item_rules \<and>
            \<not> dict_has ?p ''is_stock''"
    by (simp add: item_rules_def dict_has_def)
  have h2: "dict_has ?p ''currency_id''" and h3: "dict_has ?p ''intern_name''"
    by (simp_all add: dict_has_def)
  have a: "dict_get (complete_create item_rules ?p) ''is_stock'' = PBool False"
    using static_defaults_fill_only_absent
            [where rules = item_rules and f = "''is_stock''" and d = "PBool False" and payload = ?p,
             THEN conjunct1, rule_format, OF h1] by simp
  have b: "dict_get (complete_create item_rules ?p) ''currency_id'' = PInt 0"
    using static_defaults_fill_only_absent
            [where rules = item_rules and f = "''currency_id''" and payload = ?p,
             THEN conjunct2, THEN conjunct1, rule_format, OF h2] by (simp add: dict_get_def)
  have c: "dict_get (complete_create item_rules ?p) ''intern_name'' = PStr ''''"
    using static_defaults_fill_only_absent
            [where rules = item_rules and f = "''intern_name''" and payload = ?p,
             THEN conjunct2, THEN conjunct1, rule_format, OF h3] by (simp add: dict_get_def)
  have d: "complete_create contact_rules [(''name_1'', PStr ''Muster AG'')] =
     [(''name_1'', PStr ''Muster AG''), (''contact_type_id'', PInt 2), (''user_id'', PInt 1), (''owner_id'', PInt 1)]"
    using static_defaults_fill_only_absent
            [where name = "PStr ''Muster AG''", THEN conjunct2, THEN conjunct2, THEN conjunct2] .
  have e: "complete_create item_rules [(''intern_name'', PStr ''Widget''), (''is_stock'', PBool False), (''delivery_price'', PInt 0)] =
     [(''intern_name'', PStr ''Widget''), (''is_stock'', PBool False), (''delivery_price'', PInt 0),
      (''currency_id'', PInt 1)]"
    by (simp add: complete_create_def item_rules_def apply_static_def dict_has_def)
  from a b c d e show ?thesis by (simp only: simp_thms)
qed


end
